theory Spec2Isabelle
  imports Main "HOL-Library.Word"
begin

section \<open>Dynamically typed values\<close>

text \<open>
  Documents, patches and JWS headers are Go values of type \<^verbatim>\<open>interface{}\<close>, produced by
  \<^verbatim>\<open>encoding/json\<close> or built by a caller. The datatype lists the dynamic types the code
  distinguishes with type assertions: \<^verbatim>\<open>nil\<close>, \<^verbatim>\<open>string\<close>, a number, \<^verbatim>\<open>bool\<close>,
  \<^verbatim>\<open>[]string\<close>, \<^verbatim>\<open>[]interface{}\<close> and \<^verbatim>\<open>map[string]interface{}\<close>.
\<close>

datatype iface =
    INil
  | IString string
  | INumber int
  | IBool bool
  | IStrings "string list"
  | IArray "iface list"
  | IObject "(string \<times> iface) list"

section \<open>Patch validator (patchvalidator/document.go)\<close>

subsection \<open>Constants and tables\<close>

definition bls12381G2Key2020 :: string where
  "bls12381G2Key2020 = ''Bls12381G2Key2020''"

definition jsonWebKey2020 :: string where
  "jsonWebKey2020 = ''JsonWebKey2020''"

definition ecdsaSecp256k1VerificationKey2019 :: string where
  "ecdsaSecp256k1VerificationKey2019 = ''EcdsaSecp256k1VerificationKey2019''"

definition x25519KeyAgreementKey2019 :: string where
  "x25519KeyAgreementKey2019 = ''X25519KeyAgreementKey2019''"

definition ed25519VerificationKey2018 :: string where
  "ed25519VerificationKey2018 = ''Ed25519VerificationKey2018''"

definition ed25519VerificationKey2020 :: string where
  "ed25519VerificationKey2020 = ''Ed25519VerificationKey2020''"

definition maxIDLength :: nat where
  "maxIDLength = 50"

definition maxServiceTypeLength :: nat where
  "maxServiceTypeLength = 30"

text \<open>
  The key purposes and the property names are constants of package \<^verbatim>\<open>document\<close>; their
  values are the member names of the wire format.
\<close>

definition KeyPurposeAuthentication :: string where
  "KeyPurposeAuthentication = ''authentication''"

definition KeyPurposeAssertionMethod :: string where
  "KeyPurposeAssertionMethod = ''assertionMethod''"

definition KeyPurposeKeyAgreement :: string where
  "KeyPurposeKeyAgreement = ''keyAgreement''"

definition KeyPurposeCapabilityDelegation :: string where
  "KeyPurposeCapabilityDelegation = ''capabilityDelegation''"

definition KeyPurposeCapabilityInvocation :: string where
  "KeyPurposeCapabilityInvocation = ''capabilityInvocation''"

definition TypeProperty :: string where
  "TypeProperty = ''type''"

definition IDProperty :: string where
  "IDProperty = ''id''"

definition PurposesProperty :: string where
  "PurposesProperty = ''purposes''"

definition PublicKeyJwkProperty :: string where
  "PublicKeyJwkProperty = ''publicKeyJwk''"

definition PublicKeyBase58Property :: string where
  "PublicKeyBase58Property = ''publicKeyBase58''"

text \<open>The keys of the map \<^verbatim>\<open>allowedPurposes\<close> (every value is \<^verbatim>\<open>true\<close>).\<close>

definition allowedPurposes :: "string list" where
  "allowedPurposes =
     [KeyPurposeAuthentication, KeyPurposeAssertionMethod, KeyPurposeKeyAgreement,
      KeyPurposeCapabilityDelegation, KeyPurposeCapabilityInvocation]"

text \<open>An \<^verbatim>\<open>existenceMap\<close> is only ever asked whether a key is present: the list of its keys.\<close>

definition allowedKeyTypesGeneral :: "string list" where
  "allowedKeyTypesGeneral =
     [bls12381G2Key2020, jsonWebKey2020, ecdsaSecp256k1VerificationKey2019,
      ed25519VerificationKey2018, ed25519VerificationKey2020, x25519KeyAgreementKey2019]"

definition allowedKeyTypesVerification :: "string list" where
  "allowedKeyTypesVerification =
     [bls12381G2Key2020, jsonWebKey2020, ecdsaSecp256k1VerificationKey2019,
      ed25519VerificationKey2018, ed25519VerificationKey2020]"

definition allowedKeyTypesAgreement :: "string list" where
  "allowedKeyTypesAgreement =
     [bls12381G2Key2020, jsonWebKey2020, ecdsaSecp256k1VerificationKey2019,
      x25519KeyAgreementKey2019]"

definition allowedKeyTypes :: "string \<Rightarrow> string list option" where
  "allowedKeyTypes =
     map_of
       [(KeyPurposeAuthentication, allowedKeyTypesVerification),
        (KeyPurposeAssertionMethod, allowedKeyTypesVerification),
        (KeyPurposeKeyAgreement, allowedKeyTypesAgreement),
        (KeyPurposeCapabilityDelegation, allowedKeyTypesVerification),
        (KeyPurposeCapabilityInvocation, allowedKeyTypesVerification)]"

text \<open>
  \<^verbatim>\<open>asciiRegex = regexp.MustCompile("^[A-Za-z0-9_-]+$")\<close>. Go's \<^verbatim>\<open>$\<close> without the
  multi-line flag matches at the very end of the text only, so the expression matches
  exactly the non-empty strings all of whose bytes are in the class.
\<close>

definition asciiClass :: "char \<Rightarrow> bool" where
  "asciiClass c =
     (let n = (of_char c :: nat)
      in (65 \<le> n \<and> n \<le> 90) \<or> (97 \<le> n \<and> n \<le> 122) \<or> (48 \<le> n \<and> n \<le> 57)
         \<or> c = CHR ''_'' \<or> c = CHR ''-'')"

definition asciiRegex_MatchString :: "string \<Rightarrow> bool" where
  "asciiRegex_MatchString s = (s \<noteq> [] \<and> list_all asciiClass s)"

subsection \<open>Data\<close>

text \<open>
  \<^verbatim>\<open>document.PublicKey\<close> and \<^verbatim>\<open>document.Service\<close> are \<^verbatim>\<open>map[string]interface{}\<close>
  values read through accessor methods (\<^verbatim>\<open>ID()\<close>, \<^verbatim>\<open>Type()\<close>, \<^verbatim>\<open>Purpose()\<close>,
  \<^verbatim>\<open>PublicKeyJwk()\<close>, \<^verbatim>\<open>PublicKeyBase58()\<close>, \<^verbatim>\<open>ServiceEndpoint()\<close>) that package
  \<^verbatim>\<open>document\<close> declares. The validator observes a key through the member names present
  in the map (\<^verbatim>\<open>pubKey[name]\<close>, \<^verbatim>\<open>range pubKey\<close>) and through what the accessors return;
  the records hold exactly these observations. \<^verbatim>\<open>document.JWK\<close> is a map as well; its
  method \<^verbatim>\<open>Validate\<close> is a parameter of the model (\<open>True\<close> when it returns no error).
\<close>

type_synonym docJWK = "(string \<times> iface) list"

record PublicKey =
  pk_members :: "string list"
  pk_ID :: string
  pk_Type :: string
  pk_Purpose :: "string list"
  pk_PublicKeyJwk :: "docJWK option"
  pk_PublicKeyBase58 :: string

record Service =
  svc_ID :: string
  svc_Type :: string
  svc_ServiceEndpoint :: iface

text \<open>The errors of the validator, one constructor for each message of the source.\<close>

datatype verr =
    KeyRequired string
  | ExactlyOneKeyRequired "string list"
  | KeyNotAllowed string
  | IDExceedsMaximumLength
  | IDInvalidCharacters
  | PublicKeyError verr
  | ServiceError verr
  | DuplicatePublicKeyID string
  | DuplicateServiceID string
  | PurposesEmpty
  | PurposeExceedsMaximumLength
  | InvalidPurpose string
  | InvalidKeyType string
  | KeyNotJWK
  | JWKInvalid
  | ServiceIDMissing
  | ServiceTypeMissing
  | ServiceTypeExceedsMaximumLength
  | ServiceEndpointMissing
  | ServiceEndpointURIEmpty
  | ServiceEndpointNotURI string

subsection \<open>Functions\<close>

fun contains :: "string list \<Rightarrow> string \<Rightarrow> bool" where
  "contains [] val = False"
| "contains (v # values) val = (if v = val then True else contains values val)"

text \<open>
  The loop over one group of \<^verbatim>\<open>oneOfNKeys\<close>: \<open>satisfied\<close> is the loop variable, and a
  second present key leaves the loop with \<open>False\<close>.
\<close>

fun oneOfGroup :: "string list \<Rightarrow> bool \<Rightarrow> string list \<Rightarrow> bool" where
  "oneOfGroup members satisfied [] = satisfied"
| "oneOfGroup members satisfied (key # keys) =
     (let ok = (key \<in> set members)
      in if ok \<and> satisfied then False else oneOfGroup members (satisfied \<or> ok) keys)"

text \<open>
  Go ranges over a map in no fixed order; the model ranges over the member names in the
  order the record lists them, which can only change which disallowed name is reported.
\<close>

definition validatePublicKeyProperties :: "PublicKey \<Rightarrow> verr option" where
  "validatePublicKeyProperties pubKey =
     (let requiredKeys = [TypeProperty, IDProperty];
          optionalKeys = [PurposesProperty];
          keyGroup = [PublicKeyJwkProperty, PublicKeyBase58Property];
          allowedKeys = requiredKeys @ optionalKeys @ keyGroup
      in case find (\<lambda>required. required \<notin> set (pk_members pubKey)) requiredKeys of
           Some required \<Rightarrow> Some (KeyRequired required)
         | None \<Rightarrow>
             if \<not> oneOfGroup (pk_members pubKey) False keyGroup
             then Some (ExactlyOneKeyRequired keyGroup)
             else (case find (\<lambda>key. \<not> contains allowedKeys key) (pk_members pubKey) of
                     Some key \<Rightarrow> Some (KeyNotAllowed key)
                   | None \<Rightarrow> None))"

definition validateID :: "string \<Rightarrow> verr option" where
  "validateID ident =
     (if length ident > maxIDLength then Some IDExceedsMaximumLength
      else if \<not> asciiRegex_MatchString ident then Some IDInvalidCharacters
      else None)"

definition validateKeyPurposes :: "PublicKey \<Rightarrow> verr option" where
  "validateKeyPurposes pubKey =
     (let exists = (PurposesProperty \<in> set (pk_members pubKey))
      in if exists \<and> length (pk_Purpose pubKey) = 0 then Some PurposesEmpty
         else if length (pk_Purpose pubKey) > length allowedPurposes
         then Some PurposeExceedsMaximumLength
         else (case find (\<lambda>purpose. purpose \<notin> set allowedPurposes) (pk_Purpose pubKey) of
                 Some purpose \<Rightarrow> Some (InvalidPurpose purpose)
               | None \<Rightarrow> None))"

fun keyTypePurposes :: "string \<Rightarrow> string list \<Rightarrow> bool" where
  "keyTypePurposes keyType [] = True"
| "keyTypePurposes keyType (purpose # purposes) =
     (case allowedKeyTypes purpose of
        None \<Rightarrow> False
      | Some allowed \<Rightarrow>
          if keyType \<notin> set allowed then False else keyTypePurposes keyType purposes)"

definition validateKeyTypePurpose :: "PublicKey \<Rightarrow> bool" where
  "validateKeyTypePurpose pubKey =
     (if length (pk_Purpose pubKey) = 0 \<and> pk_Type pubKey \<notin> set allowedKeyTypesGeneral
      then False
      else keyTypePurposes (pk_Type pubKey) (pk_Purpose pubKey))"

definition validateJWK :: "(docJWK \<Rightarrow> bool) \<Rightarrow> docJWK option \<Rightarrow> verr option" where
  "validateJWK jwkValidate jwk =
     (case jwk of
        None \<Rightarrow> Some KeyNotJWK
      | Some j \<Rightarrow> if jwkValidate j then None else Some JWKInvalid)"

text \<open>The loop of \<^verbatim>\<open>validatePublicKeys\<close>; \<open>ids\<close> holds the keys of the map \<^verbatim>\<open>ids\<close>.\<close>

fun validatePublicKeysFrom ::
  "(docJWK \<Rightarrow> bool) \<Rightarrow> string list \<Rightarrow> PublicKey list \<Rightarrow> verr option" where
  "validatePublicKeysFrom jwkValidate ids [] = None"
| "validatePublicKeysFrom jwkValidate ids (pubKey # pubKeys) =
     (case validatePublicKeyProperties pubKey of
        Some err \<Rightarrow> Some err
      | None \<Rightarrow>
          (case validateID (pk_ID pubKey) of
             Some err \<Rightarrow> Some (PublicKeyError err)
           | None \<Rightarrow>
               if pk_ID pubKey \<in> set ids then Some (DuplicatePublicKeyID (pk_ID pubKey))
               else (case validateKeyPurposes pubKey of
                       Some err \<Rightarrow> Some err
                     | None \<Rightarrow>
                         if \<not> validateKeyTypePurpose pubKey
                         then Some (InvalidKeyType (pk_Type pubKey))
                         else (case validateJWK jwkValidate (pk_PublicKeyJwk pubKey) of
                                 Some err \<Rightarrow>
                                   if pk_PublicKeyBase58 pubKey = []
                                      \<or> pk_Type pubKey = jsonWebKey2020
                                   then Some err
                                   else validatePublicKeysFrom jwkValidate
                                          (pk_ID pubKey # ids) pubKeys
                               | None \<Rightarrow>
                                   validatePublicKeysFrom jwkValidate
                                     (pk_ID pubKey # ids) pubKeys))))"

definition validatePublicKeys :: "(docJWK \<Rightarrow> bool) \<Rightarrow> PublicKey list \<Rightarrow> verr option" where
  "validatePublicKeys jwkValidate pubKeys = validatePublicKeysFrom jwkValidate [] pubKeys"

text \<open>
  \<^verbatim>\<open>url.ParseRequestURI\<close> belongs to Go's standard library; \<open>parseRequestURI\<close> is
  \<open>True\<close> when it returns no error.
\<close>

definition validateURI :: "(string \<Rightarrow> bool) \<Rightarrow> string \<Rightarrow> verr option" where
  "validateURI parseRequestURI uri =
     (if uri = [] then Some ServiceEndpointURIEmpty
      else if \<not> parseRequestURI uri then Some (ServiceEndpointNotURI uri)
      else None)"

fun validateURIs :: "(string \<Rightarrow> bool) \<Rightarrow> string list \<Rightarrow> verr option" where
  "validateURIs parseRequestURI [] = None"
| "validateURIs parseRequestURI (uri # uris) =
     (case validateURI parseRequestURI uri of
        Some err \<Rightarrow> Some err
      | None \<Rightarrow> validateURIs parseRequestURI uris)"

text \<open>The \<^verbatim>\<open>return\<close> inside the loop leaves it at the first element that is a string.\<close>

fun validateServiceEndpointObjects :: "(string \<Rightarrow> bool) \<Rightarrow> iface list \<Rightarrow> verr option" where
  "validateServiceEndpointObjects parseRequestURI [] = None"
| "validateServiceEndpointObjects parseRequestURI (obj # objs) =
     (case obj of
        IString uri \<Rightarrow> validateURI parseRequestURI uri
      | _ \<Rightarrow> validateServiceEndpointObjects parseRequestURI objs)"

definition validateServiceEndpoint :: "(string \<Rightarrow> bool) \<Rightarrow> iface \<Rightarrow> verr option" where
  "validateServiceEndpoint parseRequestURI serviceEndpoint =
     (case serviceEndpoint of
        INil \<Rightarrow> Some ServiceEndpointMissing
      | IString uri \<Rightarrow> validateURI parseRequestURI uri
      | IStrings uris \<Rightarrow> validateURIs parseRequestURI uris
      | IArray objs \<Rightarrow> validateServiceEndpointObjects parseRequestURI objs
      | _ \<Rightarrow> None)"

definition validateServiceType :: "string \<Rightarrow> verr option" where
  "validateServiceType serviceType =
     (if serviceType = [] then Some ServiceTypeMissing
      else if length serviceType > maxServiceTypeLength
      then Some ServiceTypeExceedsMaximumLength
      else None)"

definition validateServiceID :: "string \<Rightarrow> verr option" where
  "validateServiceID ident =
     (if ident = [] then Some ServiceIDMissing
      else (case validateID ident of
              Some err \<Rightarrow> Some (ServiceError err)
            | None \<Rightarrow> None))"

definition validateService :: "(string \<Rightarrow> bool) \<Rightarrow> Service \<Rightarrow> verr option" where
  "validateService parseRequestURI service =
     (case validateServiceID (svc_ID service) of
        Some err \<Rightarrow> Some err
      | None \<Rightarrow>
          (case validateServiceType (svc_Type service) of
             Some err \<Rightarrow> Some err
           | None \<Rightarrow> validateServiceEndpoint parseRequestURI (svc_ServiceEndpoint service)))"

fun validateServicesFrom ::
  "(string \<Rightarrow> bool) \<Rightarrow> string list \<Rightarrow> Service list \<Rightarrow> verr option" where
  "validateServicesFrom parseRequestURI ids [] = None"
| "validateServicesFrom parseRequestURI ids (service # services) =
     (case validateService parseRequestURI service of
        Some err \<Rightarrow> Some err
      | None \<Rightarrow>
          if svc_ID service \<in> set ids then Some (DuplicateServiceID (svc_ID service))
          else validateServicesFrom parseRequestURI (svc_ID service # ids) services)"

definition validateServices :: "(string \<Rightarrow> bool) \<Rightarrow> Service list \<Rightarrow> verr option" where
  "validateServices parseRequestURI services = validateServicesFrom parseRequestURI [] services"

section \<open>Operation parser: recover operations (package operationparser)\<close>

subsection \<open>Data\<close>

text \<open>
  \<^verbatim>\<open>jws.JWK\<close> of sidetree-core: only \<^verbatim>\<open>Crv\<close> and \<^verbatim>\<open>Nonce\<close> are read here. The parser
  holds keys by pointer (\<^verbatim>\<open>*jws.JWK\<close>): \<open>None\<close> is the nil pointer.
\<close>

record JWK =
  jwk_Kty :: string
  jwk_Crv :: string
  jwk_X :: string
  jwk_Y :: string
  jwk_Nonce :: string

record DeltaModel =
  UpdateCommitment :: string
  Patches :: "iface list"

record SuffixDataModel =
  sfx_DeltaHash :: string
  sfx_RecoveryCommitment :: string
  sfx_AnchorOrigin :: iface
  sfx_Type :: string

record RecoverRequest =
  rr_Operation :: string
  rr_DidSuffix :: string
  rr_RevealValue :: string
  rr_SignedData :: string
  rr_Delta :: "DeltaModel option"

text \<open>\<^verbatim>\<open>int64\<close> fields are 64-bit words, read as signed numbers with \<open>sint\<close>.\<close>

record RecoverSignedDataModel =
  sd_DeltaHash :: string
  sd_RecoveryKey :: "JWK option"
  sd_RecoveryCommitment :: string
  sd_AnchorOrigin :: iface
  sd_AnchorFrom :: "64 word"
  sd_AnchorUntil :: "64 word"

text \<open>
  \<^verbatim>\<open>jws.Headers\<close> is a \<^verbatim>\<open>map[string]interface{}\<close>; the parser observes the member names
  it ranges over and the pair that the accessor \<^verbatim>\<open>Algorithm()\<close> returns (the value and
  whether it was found). A nil map is \<open>None\<close>.
\<close>

record Headers =
  hdr_members :: "string list"
  hdr_Algorithm :: "string \<times> bool"

record JSONWebSignature =
  ProtectedHeaders :: "Headers option"
  Payload :: string

record Operation =
  op_Type :: string
  op_Namespace :: string
  op_ID :: string
  op_UniqueSuffix :: string
  op_OperationRequest :: string
  op_SignedData :: string
  op_RevealValue :: string
  op_Delta :: "DeltaModel option"
  op_SuffixData :: "SuffixDataModel option"
  op_AnchorOrigin :: iface

definition TypeCreate :: string where "TypeCreate = ''create''"
definition TypeUpdate :: string where "TypeUpdate = ''update''"
definition TypeRecover :: string where "TypeRecover = ''recover''"
definition TypeDeactivate :: string where "TypeDeactivate = ''deactivate''"

definition HeaderAlgorithm :: string where "HeaderAlgorithm = ''alg''"
definition HeaderKeyID :: string where "HeaderKeyID = ''kid''"

text \<open>
  \<^verbatim>\<open>protocol.Protocol\<close>, with the fields this development reads. \<^verbatim>\<open>MaxDeltaSize\<close> is a
  Go \<^verbatim>\<open>uint\<close> (64 bits wide on the 64-bit platforms the module is built for), and
  \<^verbatim>\<open>NonceSize\<close> a \<^verbatim>\<open>uint64\<close>.
\<close>

record Protocol =
  GenesisTime :: nat
  MultihashAlgorithms :: "nat list"
  SignatureAlgorithms :: "string list"
  KeyAlgorithms :: "string list"
  MaxDeltaSize :: "64 word"
  NonceSize :: "64 word"

text \<open>
  \<^verbatim>\<open>Parser\<close> embeds \<^verbatim>\<open>protocol.Protocol\<close> and holds the two validators; a validator is
  \<open>True\<close> where its \<^verbatim>\<open>Validate\<close> returns no error.
\<close>

record Parser = Protocol +
  anchorOriginValidator :: "iface \<Rightarrow> bool"
  anchorTimeValidator :: "64 word \<Rightarrow> 64 word \<Rightarrow> bool"

text \<open>
  The functions the recover parser calls and that live in other packages or files:
  \<^verbatim>\<open>encoding/json\<close>, \<^verbatim>\<open>internal/jws.ParseJWS\<close>, \<^verbatim>\<open>JWK.Validate\<close>,
  \<^verbatim>\<open>encoder.DecodeString\<close>, \<^verbatim>\<open>Parser.validateMultihash\<close>, \<^verbatim>\<open>Parser.ValidateDelta\<close>,
  \<^verbatim>\<open>hashing.GetMultihashCode\<close>, \<^verbatim>\<open>hashing.CalculateModelMultihash\<close> and
  \<^verbatim>\<open>commitment.GetCommitment\<close>. They are parameters of the model: \<open>None\<close> (or \<open>False\<close>)
  is a returned error.
\<close>

record Ext =
  json_Unmarshal_RecoverRequest :: "string \<Rightarrow> RecoverRequest option"
  json_Unmarshal_RecoverSignedDataModel :: "string \<Rightarrow> RecoverSignedDataModel option"
  ParseJWS :: "string \<Rightarrow> JSONWebSignature option"
  JWK_Validate :: "JWK \<Rightarrow> bool"
  DecodeString :: "string \<Rightarrow> string option"
  validateMultihash :: "string \<Rightarrow> string \<Rightarrow> bool"
  ValidateDelta :: "DeltaModel option \<Rightarrow> bool"
  GetMultihashCode :: "string \<Rightarrow> nat option"
  CalculateModelMultihash :: "JWK option \<Rightarrow> nat \<Rightarrow> string option"
  GetCommitment :: "JWK option \<Rightarrow> nat \<Rightarrow> string option"

datatype perr =
    FailedToUnmarshalRecoverRequest
  | MissingDidSuffix
  | MissingSignedData
  | MultihashNotValid string
  | FailedToParseSignedData perr
  | ParseJWSFailed
  | MissingProtectedHeaders
  | AlgorithmMustBePresent
  | AlgorithmCannotBeEmpty
  | InvalidProtectedHeader string
  | AlgorithmNotAllowed string
  | FailedToUnmarshalSignedDataModelForRecover
  | ValidateSignedDataForRecovery perr
  | MissingSigningKey
  | SigningKeyValidationFailed
  | KeyAlgorithmNotAllowed string
  | ValidateSigningKeyNonce perr
  | FailedToDecodeNonce string
  | NonceSizeMismatch
  | GetMultihashCodeFailed
  | CalculateCurrentCommitment
  | ReusingPublicKeysForCommitment
  | AnchorOriginNotValid
  | AnchorTimeNotValid
  | DeltaNotValid
  | CommitmentsCannotBeEqual
  | RevealValueMismatch perr
  | CalculateModelMultihashFailed
  | SuppliedHashDoesNotMatch
  | NilPointerDereference

subsection \<open>Functions\<close>

text \<open>
  Modelled from the spec: \<^verbatim>\<open>hashing.IsValidModelMultihash\<close> is not among the source
  files. Section 4.A: \<^verbatim>\<open>is_valid_reveal(jwk, claimed_reveal)\<close> succeeds iff the multihash
  of \<^verbatim>\<open>canonicalize(jwk)\<close> equals \<^verbatim>\<open>claimed_reveal\<close>, computed with the algorithm encoded
  inside \<^verbatim>\<open>claimed_reveal\<close>. \<open>GetMultihashCode\<close> reads the algorithm out of a multihash
  and \<open>CalculateModelMultihash\<close> is the multihash of the canonical form.
\<close>

definition IsValidModelMultihash :: "'a Ext_scheme \<Rightarrow> JWK option \<Rightarrow> string \<Rightarrow> perr option" where
  "IsValidModelMultihash E model modelMultihash =
     (case GetMultihashCode E modelMultihash of
        None \<Rightarrow> Some GetMultihashCodeFailed
      | Some code \<Rightarrow>
          (case CalculateModelMultihash E model code of
             None \<Rightarrow> Some CalculateModelMultihashFailed
           | Some encodedComputedMultihash \<Rightarrow>
               if encodedComputedMultihash \<noteq> modelMultihash
               then Some SuppliedHashDoesNotMatch
               else None))"

definition validateProtectedHeaders :: "Headers option \<Rightarrow> string list \<Rightarrow> perr option" where
  "validateProtectedHeaders headers allowedAlgorithms =
     (case headers of
        None \<Rightarrow> Some MissingProtectedHeaders
      | Some h \<Rightarrow>
          (let alg = fst (hdr_Algorithm h); ok = snd (hdr_Algorithm h)
           in if \<not> ok then Some AlgorithmMustBePresent
              else if alg = [] then Some AlgorithmCannotBeEmpty
              else (case find (\<lambda>k. k \<notin> set [HeaderAlgorithm, HeaderKeyID]) (hdr_members h) of
                      Some k \<Rightarrow> Some (InvalidProtectedHeader k)
                    | None \<Rightarrow>
                        if \<not> contains allowedAlgorithms alg
                        then Some (AlgorithmNotAllowed alg)
                        else None)))"

definition parseSignedData ::
  "'a Ext_scheme \<Rightarrow> 'b Parser_scheme \<Rightarrow> string \<Rightarrow> perr + JSONWebSignature" where
  "parseSignedData E p compactJWS =
     (if compactJWS = [] then Inl MissingSignedData
      else (case ParseJWS E compactJWS of
              None \<Rightarrow> Inl (FailedToParseSignedData ParseJWSFailed)
            | Some sig \<Rightarrow>
                (case validateProtectedHeaders (ProtectedHeaders sig) (SignatureAlgorithms p) of
                   Some err \<Rightarrow> Inl (FailedToParseSignedData err)
                 | None \<Rightarrow> Inr sig)))"

definition validateNonce :: "'a Ext_scheme \<Rightarrow> 'b Parser_scheme \<Rightarrow> string \<Rightarrow> perr option" where
  "validateNonce E p nonce =
     (if nonce = [] then None
      else (case DecodeString E nonce of
              None \<Rightarrow> Some (FailedToDecodeNonce nonce)
            | Some nonceBytes \<Rightarrow>
                if int (length nonceBytes) \<noteq> sint (NonceSize p) then Some NonceSizeMismatch
                else None))"

definition validateSigningKey ::
  "'a Ext_scheme \<Rightarrow> 'b Parser_scheme \<Rightarrow> JWK option \<Rightarrow> perr option" where
  "validateSigningKey E p key =
     (case key of
        None \<Rightarrow> Some MissingSigningKey
      | Some k \<Rightarrow>
          if \<not> JWK_Validate E k then Some SigningKeyValidationFailed
          else if \<not> contains (KeyAlgorithms p) (jwk_Crv k)
          then Some (KeyAlgorithmNotAllowed (jwk_Crv k))
          else (case validateNonce E p (jwk_Nonce k) of
                  Some err \<Rightarrow> Some (ValidateSigningKeyNonce err)
                | None \<Rightarrow> None))"

definition validateCommitment :: "'a Ext_scheme \<Rightarrow> JWK option \<Rightarrow> string \<Rightarrow> perr option" where
  "validateCommitment E jwk nextCommitment =
     (case GetMultihashCode E nextCommitment of
        None \<Rightarrow> Some GetMultihashCodeFailed
      | Some code \<Rightarrow>
          (case GetCommitment E jwk code of
             None \<Rightarrow> Some CalculateCurrentCommitment
           | Some currentCommitment \<Rightarrow>
               if currentCommitment = nextCommitment
               then Some ReusingPublicKeysForCommitment
               else None))"

definition validateSignedDataForRecovery ::
  "'a Ext_scheme \<Rightarrow> 'b Parser_scheme \<Rightarrow> RecoverSignedDataModel \<Rightarrow> perr option" where
  "validateSignedDataForRecovery E p signedData =
     (case validateSigningKey E p (sd_RecoveryKey signedData) of
        Some err \<Rightarrow> Some err
      | None \<Rightarrow>
          if \<not> validateMultihash E (sd_RecoveryCommitment signedData) ''recovery commitment''
          then Some (MultihashNotValid ''recovery commitment'')
          else if \<not> validateMultihash E (sd_DeltaHash signedData) ''delta hash''
          then Some (MultihashNotValid ''delta hash'')
          else validateCommitment E (sd_RecoveryKey signedData)
                 (sd_RecoveryCommitment signedData))"

definition ParseSignedDataForRecover ::
  "'a Ext_scheme \<Rightarrow> 'b Parser_scheme \<Rightarrow> string \<Rightarrow> perr + RecoverSignedDataModel" where
  "ParseSignedDataForRecover E p compactJWS =
     (case parseSignedData E p compactJWS of
        Inl err \<Rightarrow> Inl err
      | Inr signedData \<Rightarrow>
          (case json_Unmarshal_RecoverSignedDataModel E (Payload signedData) of
             None \<Rightarrow> Inl FailedToUnmarshalSignedDataModelForRecover
           | Some schema \<Rightarrow>
               (case validateSignedDataForRecovery E p schema of
                  Some err \<Rightarrow> Inl (ValidateSignedDataForRecovery err)
                | None \<Rightarrow> Inr schema)))"

definition validateRecoverRequest :: "'a Ext_scheme \<Rightarrow> RecoverRequest \<Rightarrow> perr option" where
  "validateRecoverRequest E req =
     (if rr_DidSuffix req = [] then Some MissingDidSuffix
      else if rr_SignedData req = [] then Some MissingSignedData
      else if \<not> validateMultihash E (rr_RevealValue req) ''reveal value''
      then Some (MultihashNotValid ''reveal value'')
      else None)"

definition parseRecoverRequest :: "'a Ext_scheme \<Rightarrow> string \<Rightarrow> perr + RecoverRequest" where
  "parseRecoverRequest E payload =
     (case json_Unmarshal_RecoverRequest E payload of
        None \<Rightarrow> Inl FailedToUnmarshalRecoverRequest
      | Some schema \<Rightarrow>
          (case validateRecoverRequest E schema of
             Some err \<Rightarrow> Inl err
           | None \<Rightarrow> Inr schema))"

text \<open>
  \<^verbatim>\<open>from + int64(p.MaxDeltaSize)\<close>: the conversion keeps the 64 bits and Go's addition
  on \<^verbatim>\<open>int64\<close> wraps around, as \<open>+\<close> on words does.
\<close>

definition getAnchorUntil :: "'b Parser_scheme \<Rightarrow> 64 word \<Rightarrow> 64 word \<Rightarrow> 64 word" where
  "getAnchorUntil p from until =
     (if from \<noteq> 0 \<and> until = 0 then from + MaxDeltaSize p else until)"

text \<open>
  The checks of the branch \<^verbatim>\<open>if !batch\<close>, in the order of the source. Reading
  \<^verbatim>\<open>schema.Delta.UpdateCommitment\<close> through a nil \<^verbatim>\<open>Delta\<close> panics.
\<close>

definition ParseRecoverOperation ::
  "'a Ext_scheme \<Rightarrow> 'b Parser_scheme \<Rightarrow> string \<Rightarrow> bool \<Rightarrow> perr + Operation" where
  "ParseRecoverOperation E p request batch =
     (case parseRecoverRequest E request of
        Inl err \<Rightarrow> Inl err
      | Inr schema \<Rightarrow>
          (case ParseSignedDataForRecover E p (rr_SignedData schema) of
             Inl err \<Rightarrow> Inl err
           | Inr signedData \<Rightarrow>
               (case (if \<not> batch
                      then (if \<not> anchorOriginValidator p (sd_AnchorOrigin signedData)
                            then Some AnchorOriginNotValid
                            else (let until = getAnchorUntil p (sd_AnchorFrom signedData)
                                                (sd_AnchorUntil signedData)
                                  in if \<not> anchorTimeValidator p (sd_AnchorFrom signedData) until
                                     then Some AnchorTimeNotValid
                                     else if \<not> ValidateDelta E (rr_Delta schema)
                                     then Some DeltaNotValid
                                     else (case rr_Delta schema of
                                             None \<Rightarrow> Some NilPointerDereference
                                           | Some delta \<Rightarrow>
                                               if UpdateCommitment delta
                                                  = sd_RecoveryCommitment signedData
                                               then Some CommitmentsCannotBeEqual
                                               else None)))
                      else None) of
                  Some err \<Rightarrow> Inl err
                | None \<Rightarrow>
                    (case IsValidModelMultihash E (sd_RecoveryKey signedData)
                            (rr_RevealValue schema) of
                       Some err \<Rightarrow> Inl (RevealValueMismatch err)
                     | None \<Rightarrow>
                         Inr \<lparr>op_Type = TypeRecover,
                              op_Namespace = [],
                              op_ID = [],
                              op_UniqueSuffix = rr_DidSuffix schema,
                              op_OperationRequest = request,
                              op_SignedData = rr_SignedData schema,
                              op_RevealValue = rr_RevealValue schema,
                              op_Delta = rr_Delta schema,
                              op_SuffixData = None,
                              op_AnchorOrigin = sd_AnchorOrigin signedData\<rparr>))))"

section \<open>Client: create requests (package client)\<close>

record CreateRequestInfo =
  cri_OpaqueDocument :: string
  cri_Patches :: "iface list"
  cri_RecoveryCommitment :: string
  cri_UpdateCommitment :: string
  cri_AnchorOrigin :: iface
  cri_Type :: string
  cri_MultihashCode :: nat

record CreateRequest =
  cr_Operation :: string
  cr_SuffixData :: "SuffixDataModel option"
  cr_Delta :: "DeltaModel option"

text \<open>
  Called from other packages: \<^verbatim>\<open>multihash.ValidCode\<close>,
  \<^verbatim>\<open>hashing.IsComputedUsingMultihashAlgorithms\<close>, \<^verbatim>\<open>patch.PatchesFromDocument\<close>,
  \<^verbatim>\<open>hashing.CalculateModelMultihash\<close> (of a delta) and \<^verbatim>\<open>canonicalizer.MarshalCanonical\<close>.
\<close>

record ClientExt =
  ValidCode :: "nat \<Rightarrow> bool"
  IsComputedUsingMultihashAlgorithms :: "string \<Rightarrow> nat list \<Rightarrow> bool"
  PatchesFromDocument :: "string \<Rightarrow> iface list option"
  CalculateDeltaMultihash :: "DeltaModel \<Rightarrow> nat \<Rightarrow> string option"
  MarshalCanonical :: "CreateRequest \<Rightarrow> string option"

datatype cerr =
    EitherOpaqueDocumentOrPatches
  | BothOpaqueDocumentAndPatches
  | MultihashNotSupported nat
  | RecoveryCommitmentNotComputedWithAlgorithm
  | UpdateCommitmentNotComputedWithAlgorithm
  | RecoveryAndUpdateCommitmentsEqual
  | PatchesFromDocumentFailed
  | CalculateDeltaHashFailed
  | MarshalCanonicalFailed

definition validateCreateRequest :: "'a ClientExt_scheme \<Rightarrow> CreateRequestInfo \<Rightarrow> cerr option" where
  "validateCreateRequest C info =
     (if cri_OpaqueDocument info = [] \<and> length (cri_Patches info) = 0
      then Some EitherOpaqueDocumentOrPatches
      else if cri_OpaqueDocument info \<noteq> [] \<and> length (cri_Patches info) > 0
      then Some BothOpaqueDocumentAndPatches
      else if \<not> ValidCode C (cri_MultihashCode info)
      then Some (MultihashNotSupported (cri_MultihashCode info))
      else if \<not> IsComputedUsingMultihashAlgorithms C (cri_RecoveryCommitment info)
                  [cri_MultihashCode info]
      then Some RecoveryCommitmentNotComputedWithAlgorithm
      else if \<not> IsComputedUsingMultihashAlgorithms C (cri_UpdateCommitment info)
                  [cri_MultihashCode info]
      then Some UpdateCommitmentNotComputedWithAlgorithm
      else if cri_RecoveryCommitment info = cri_UpdateCommitment info
      then Some RecoveryAndUpdateCommitmentsEqual
      else None)"

definition getPatches :: "'a ClientExt_scheme \<Rightarrow> string \<Rightarrow> iface list \<Rightarrow> iface list option" where
  "getPatches C opaque patches =
     (if opaque \<noteq> [] then PatchesFromDocument C opaque else Some patches)"

definition NewCreateRequest :: "'a ClientExt_scheme \<Rightarrow> CreateRequestInfo \<Rightarrow> cerr + string" where
  "NewCreateRequest C info =
     (case validateCreateRequest C info of
        Some err \<Rightarrow> Inl err
      | None \<Rightarrow>
          (case getPatches C (cri_OpaqueDocument info) (cri_Patches info) of
             None \<Rightarrow> Inl PatchesFromDocumentFailed
           | Some patches \<Rightarrow>
               (let delta = \<lparr>UpdateCommitment = cri_UpdateCommitment info, Patches = patches\<rparr>
                in case CalculateDeltaMultihash C delta (cri_MultihashCode info) of
                     None \<Rightarrow> Inl CalculateDeltaHashFailed
                   | Some deltaHash \<Rightarrow>
                       (let suffixData =
                              \<lparr>sfx_DeltaHash = deltaHash,
                               sfx_RecoveryCommitment = cri_RecoveryCommitment info,
                               sfx_AnchorOrigin = cri_AnchorOrigin info,
                               sfx_Type = cri_Type info\<rparr>;
                            schema =
                              \<lparr>cr_Operation = TypeCreate,
                               cr_SuffixData = Some suffixData,
                               cr_Delta = Some delta\<rparr>
                        in case MarshalCanonical C schema of
                             None \<Rightarrow> Inl MarshalCanonicalFailed
                           | Some bytes \<Rightarrow> Inr bytes))))"

section \<open>Client: update requests (package client)\<close>

text \<open>
  A \<^verbatim>\<open>Signer\<close> is an interface value (\<open>None\<close> is nil) whose \<^verbatim>\<open>Headers()\<close> may be a nil
  map. \<^verbatim>\<open>signutil.SignModel\<close>, \<^verbatim>\<open>hashing.CalculateModelMultihash\<close>,
  \<^verbatim>\<open>commitment.GetCommitment\<close>, \<^verbatim>\<open>JWK.Validate\<close> and
  \<^verbatim>\<open>canonicalizer.MarshalCanonical\<close> are parameters.
\<close>

record Signer =
  sg_Headers :: "Headers option"

record UpdateRequestInfo =
  uri_DidSuffix :: string
  uri_Patches :: "iface list"
  uri_UpdateCommitment :: string
  uri_UpdateKey :: "JWK option"
  uri_MultihashCode :: nat
  uri_Signer :: "Signer option"
  uri_RevealValue :: string
  uri_AnchorFrom :: "64 word"
  uri_AnchorUntil :: "64 word"

record UpdateSignedDataModel =
  usd_UpdateKey :: "JWK option"
  usd_DeltaHash :: string
  usd_AnchorFrom :: "64 word"
  usd_AnchorUntil :: "64 word"

record UpdateRequest =
  ur_Operation :: string
  ur_DidSuffix :: string
  ur_RevealValue :: string
  ur_SignedData :: string
  ur_Delta :: "DeltaModel option"

record UpdateExt =
  upd_JWK_Validate :: "JWK \<Rightarrow> bool"
  upd_CalculateModelMultihash :: "DeltaModel \<Rightarrow> nat \<Rightarrow> string option"
  upd_GetCommitment :: "JWK option \<Rightarrow> nat \<Rightarrow> string option"
  upd_SignModel :: "UpdateSignedDataModel \<Rightarrow> Signer option \<Rightarrow> string option"
  upd_MarshalCanonical :: "UpdateRequest \<Rightarrow> string option"

datatype uerr =
    MissingDidUniqueSuffix
  | MissingRevealValue
  | MissingUpdateInformation
  | MissingUpdateKey
  | UpdateKeyNotValid
  | MissingSigner
  | SignerMissingProtectedHeaders
  | SignerAlgorithmMustBePresent
  | SignerAlgorithmCannotBeEmpty
  | SignerHeaderNotAllowed string
  | CalculateDeltaMultihashFailed
  | CalculateCurrentCommitmentFailed
  | ReusingPublicKeys
  | SignModelFailed
  | MarshalUpdateRequestFailed

definition validateSigner :: "Signer option \<Rightarrow> uerr option" where
  "validateSigner signer =
     (case signer of
        None \<Rightarrow> Some MissingSigner
      | Some sg \<Rightarrow>
          (case sg_Headers sg of
             None \<Rightarrow> Some SignerMissingProtectedHeaders
           | Some h \<Rightarrow>
               (let alg = fst (hdr_Algorithm h); ok = snd (hdr_Algorithm h)
                in if \<not> ok then Some SignerAlgorithmMustBePresent
                   else if alg = [] then Some SignerAlgorithmCannotBeEmpty
                   else (case find (\<lambda>k. k \<notin> set [HeaderAlgorithm, HeaderKeyID])
                                (hdr_members h) of
                           Some k \<Rightarrow> Some (SignerHeaderNotAllowed k)
                         | None \<Rightarrow> None))))"

definition validateUpdateKey :: "'a UpdateExt_scheme \<Rightarrow> JWK option \<Rightarrow> uerr option" where
  "validateUpdateKey U key =
     (case key of
        None \<Rightarrow> Some MissingUpdateKey
      | Some k \<Rightarrow> if upd_JWK_Validate U k then None else Some UpdateKeyNotValid)"

definition validateUpdateRequest :: "'a UpdateExt_scheme \<Rightarrow> UpdateRequestInfo \<Rightarrow> uerr option" where
  "validateUpdateRequest U info =
     (if uri_DidSuffix info = [] then Some MissingDidUniqueSuffix
      else if uri_RevealValue info = [] then Some MissingRevealValue
      else if length (uri_Patches info) = 0 then Some MissingUpdateInformation
      else (case validateUpdateKey U (uri_UpdateKey info) of
              Some err \<Rightarrow> Some err
            | None \<Rightarrow> validateSigner (uri_Signer info)))"

text \<open>\<^verbatim>\<open>validateCommitment\<close> of package \<^verbatim>\<open>client\<close> (three arguments).\<close>

definition client_validateCommitment ::
  "'a UpdateExt_scheme \<Rightarrow> JWK option \<Rightarrow> nat \<Rightarrow> string \<Rightarrow> uerr option" where
  "client_validateCommitment U jwk multihashCode nextCommitment =
     (case upd_GetCommitment U jwk multihashCode of
        None \<Rightarrow> Some CalculateCurrentCommitmentFailed
      | Some currentCommitment \<Rightarrow>
          if currentCommitment = nextCommitment then Some ReusingPublicKeys else None)"

definition NewUpdateRequest :: "'a UpdateExt_scheme \<Rightarrow> UpdateRequestInfo \<Rightarrow> uerr + string" where
  "NewUpdateRequest U info =
     (case validateUpdateRequest U info of
        Some err \<Rightarrow> Inl err
      | None \<Rightarrow>
          (let delta = \<lparr>UpdateCommitment = uri_UpdateCommitment info,
                        Patches = uri_Patches info\<rparr>
           in case upd_CalculateModelMultihash U delta (uri_MultihashCode info) of
                None \<Rightarrow> Inl CalculateDeltaMultihashFailed
              | Some deltaHash \<Rightarrow>
                  (let signedDataModel =
                         \<lparr>usd_UpdateKey = uri_UpdateKey info,
                          usd_DeltaHash = deltaHash,
                          usd_AnchorFrom = uri_AnchorFrom info,
                          usd_AnchorUntil = uri_AnchorUntil info\<rparr>
                   in case client_validateCommitment U (uri_UpdateKey info)
                             (uri_MultihashCode info) (uri_UpdateCommitment info) of
                        Some err \<Rightarrow> Inl err
                      | None \<Rightarrow>
                          (case upd_SignModel U signedDataModel (uri_Signer info) of
                             None \<Rightarrow> Inl SignModelFailed
                           | Some signModel \<Rightarrow>
                               (case upd_MarshalCanonical U
                                       \<lparr>ur_Operation = TypeUpdate,
                                        ur_DidSuffix = uri_DidSuffix info,
                                        ur_RevealValue = uri_RevealValue info,
                                        ur_SignedData = signModel,
                                        ur_Delta = Some delta\<rparr> of
                                  None \<Rightarrow> Inl MarshalUpdateRequestFailed
                                | Some bytes \<Rightarrow> Inr bytes)))))"

section \<open>Resolver and applier, from the specification\<close>

text \<open>
  Modelled from the spec: the operation processor (package \<^verbatim>\<open>processor\<close>), the operation
  applier (package \<^verbatim>\<open>operationapplier\<close>), the parsers of the other operation types, the
  commitment engine (package \<^verbatim>\<open>commitment\<close>) and the protocol registry are not among the
  source files; of the processor only the tests are. The definitions of this section
  follow sections 3, 4.A, 4.C, 4.E, 4.F, 4.G and 7 of the specification. What those
  sections leave to collaborators (the hash functions and their encoding, canonical
  JSON, the compact JWS parse and its payload, key validation, patch validation and patch
  application, the comparison of anchor-time bounds) is a parameter.
\<close>

datatype OpKind = Create | Update | Recover | Deactivate

text \<open>
  Modelled from the spec: section 3, AnchoredOperation, an operation with its ordering
  coordinates (the processor's operation type is not among the source files).
\<close>

record AnchoredOperation =
  ao_type :: OpKind
  ao_unique_suffix :: string
  ao_delta :: "DeltaModel option"
  ao_suffix_data :: "SuffixDataModel option"
  ao_signed_data :: "string option"
  ao_reveal_value :: "string option"
  ao_transaction_time :: nat
  ao_transaction_number :: nat
  ao_protocol_version :: nat
  ao_canonical_reference :: string

text \<open>
  Modelled from the spec: section 4.C, the payload of signed data as the applier reads
  it, for the three signed operations.
\<close>

record SignedPayload =
  sp_update_key :: "JWK option"
  sp_recovery_key :: "JWK option"
  sp_delta_hash :: string
  sp_recovery_commitment :: string
  sp_anchor_origin :: iface
  sp_anchor_from :: nat
  sp_anchor_until :: nat

text \<open>
  Modelled from the spec: section 3, ResolutionModel (\<^verbatim>\<open>protocol.ResolutionModel\<close> is
  not among the source files), with the fields whose evolution section 4.F describes.
  The document is a map from member names to values.
\<close>

record ResolutionModel =
  rm_doc :: "(string \<times> iface) list"
  rm_update_commitment :: string
  rm_recovery_commitment :: string
  rm_deactivated :: bool
  rm_anchor_origin :: iface

text \<open>Modelled from the spec: section 7, the taxonomy of errors.\<close>

datatype rerr =
    Malformed
  | PolicyRejected
  | CommitmentMismatch
  | KeyReuse
  | NotFound
  | Terminal
  | ProtocolUnknown

text \<open>
  Modelled from the spec: the collaborators of the applier, as parameters. \<open>multihash\<close>
  hashes and encodes with an algorithm code, \<open>algorithm_of\<close> reads the code out of an
  encoded multihash (section 4.A); the canonical forms are JCS; \<open>parse_signed_data\<close> is
  the compact JWS parse under a protocol (section 4.B).
\<close>

record Engine =
  multihash :: "nat \<Rightarrow> string \<Rightarrow> string"
  algorithm_of :: "string \<Rightarrow> nat option"
  canonicalize_jwk :: "JWK \<Rightarrow> string"
  canonicalize_delta :: "DeltaModel \<Rightarrow> string"
  parse_signed_data :: "Protocol \<Rightarrow> string \<Rightarrow> SignedPayload option"
  jwk_validates :: "Protocol \<Rightarrow> JWK \<Rightarrow> bool"
  validate_delta :: "Protocol \<Rightarrow> DeltaModel \<Rightarrow> bool"
  apply_patches :: "(string \<times> iface) list \<Rightarrow> iface list \<Rightarrow> (string \<times> iface) list option"
  anchor_time_ok :: "nat \<Rightarrow> nat \<Rightarrow> nat \<Rightarrow> bool"

subsection \<open>Protocol registry (section 4.G)\<close>

text \<open>
  Modelled from the spec: the protocol registry is not among the source files. Section
  4.G: \<^verbatim>\<open>get(t)\<close> returns the last record with \<^verbatim>\<open>genesis_time \<le> t\<close>, or an error if
  none.
\<close>

definition registry_get :: "Protocol list \<Rightarrow> nat \<Rightarrow> Protocol option" where
  "registry_get registry t =
     (case filter (\<lambda>p. GenesisTime p \<le> t) registry of
        [] \<Rightarrow> None
      | p # ps \<Rightarrow> Some (last (p # ps)))"

subsection \<open>Hashing and commitments (sections 4.A and 4.E)\<close>

text \<open>
  Modelled from the spec: packages \<^verbatim>\<open>hashing\<close> and \<^verbatim>\<open>commitment\<close> are not among the
  source files. A multihash is valid under a protocol when its algorithm is one the
  protocol permits (section 4.A); the three functions of section 4.E follow, then reveal
  matching (section 4.A).
\<close>

definition valid_multihash :: "'a Engine_scheme \<Rightarrow> Protocol \<Rightarrow> string \<Rightarrow> bool" where
  "valid_multihash H p mh =
     (case algorithm_of H mh of
        None \<Rightarrow> False
      | Some a \<Rightarrow> a \<in> set (MultihashAlgorithms p))"


definition get_commitment :: "'a Engine_scheme \<Rightarrow> JWK \<Rightarrow> nat \<Rightarrow> string" where
  "get_commitment H jwk algo = multihash H algo (multihash H algo (canonicalize_jwk H jwk))"

definition get_commitment_from_reveal :: "'a Engine_scheme \<Rightarrow> string \<Rightarrow> string option" where
  "get_commitment_from_reveal H reveal =
     (case algorithm_of H reveal of
        None \<Rightarrow> None
      | Some algo \<Rightarrow> Some (multihash H algo reveal))"

definition is_valid_reveal :: "'a Engine_scheme \<Rightarrow> JWK \<Rightarrow> string \<Rightarrow> bool" where
  "is_valid_reveal H jwk claimed_reveal =
     (case algorithm_of H claimed_reveal of
        None \<Rightarrow> False
      | Some algo \<Rightarrow> multihash H algo (canonicalize_jwk H jwk) = claimed_reveal)"

text \<open>
  Modelled from the spec: the commitment of a key, computed with the algorithm that
  encodes \<open>c\<close> (section 3: a commitment uses the algorithm of its own encoding), and
  the check that a delta hash is the multihash of the canonical delta (invariant 5).
\<close>

definition key_commitment_like :: "'a Engine_scheme \<Rightarrow> JWK \<Rightarrow> string \<Rightarrow> string option" where
  "key_commitment_like H jwk c =
     (case algorithm_of H c of
        None \<Rightarrow> None
      | Some algo \<Rightarrow> Some (get_commitment H jwk algo))"

definition delta_hash_matches :: "'a Engine_scheme \<Rightarrow> DeltaModel \<Rightarrow> string \<Rightarrow> bool" where
  "delta_hash_matches H delta delta_hash =
     (case algorithm_of H delta_hash of
        None \<Rightarrow> False
      | Some algo \<Rightarrow> multihash H algo (canonicalize_delta H delta) = delta_hash)"

subsection \<open>Applying one operation (sections 4.C and 4.F)\<close>

text \<open>
  Modelled from the spec: step 3 and the Create rules of section 4.C: the delta hash of the suffix data is a
  permitted multihash of the canonical delta, the two commitments differ and the delta
  validates. The model starts from the created document (section 4.D: a patch that fails
  at run time leaves the delta uncommitted while the commitments stand).
\<close>

definition apply_create ::
  "'a Engine_scheme \<Rightarrow> Protocol \<Rightarrow> AnchoredOperation \<Rightarrow> rerr + ResolutionModel" where
  "apply_create H p anchored =
     (case ao_suffix_data anchored of
        None \<Rightarrow> Inl Malformed
      | Some suffix \<Rightarrow>
          (case ao_delta anchored of
             None \<Rightarrow> Inl Malformed
           | Some delta \<Rightarrow>
               if \<not> valid_multihash H p (sfx_DeltaHash suffix) then Inl PolicyRejected
               else if \<not> delta_hash_matches H delta (sfx_DeltaHash suffix) then Inl Malformed
               else if sfx_RecoveryCommitment suffix = UpdateCommitment delta then Inl KeyReuse
               else if \<not> validate_delta H p delta then Inl PolicyRejected
               else Inr \<lparr>rm_doc = (case apply_patches H [] (Patches delta) of
                                      None \<Rightarrow> []
                                    | Some doc \<Rightarrow> doc),
                         rm_update_commitment = UpdateCommitment delta,
                         rm_recovery_commitment = sfx_RecoveryCommitment suffix,
                         rm_deactivated = False,
                         rm_anchor_origin = sfx_AnchorOrigin suffix\<rparr>))"

text \<open>
  Modelled from the spec: Update. First the parser's rules (section 4.C): suffix present, reveal value a valid
  multihash, signed data present, a valid update key, a valid delta hash that is the
  multihash of the canonical delta, no key reuse, and a reveal that matches the key. Then
  step 5 of section 4.F: (1) the reveal matches the current update commitment, (2) the
  key's commitment is the current update commitment, (3) the next commitment differs
  from the current one, (4) the patches apply, (5) the update commitment advances. An
  update that fails anywhere is discarded entirely.
\<close>

definition apply_update ::
  "'a Engine_scheme \<Rightarrow> Protocol \<Rightarrow> AnchoredOperation \<Rightarrow> ResolutionModel
     \<Rightarrow> rerr + ResolutionModel" where
  "apply_update H p anchored rm =
     (case (ao_reveal_value anchored, ao_signed_data anchored, ao_delta anchored) of
        (Some reveal, Some compact, Some delta) \<Rightarrow>
          if ao_unique_suffix anchored = [] then Inl Malformed
          else if \<not> valid_multihash H p reveal then Inl PolicyRejected
          else (case parse_signed_data H p compact of
                  None \<Rightarrow> Inl Malformed
                | Some payload \<Rightarrow>
                    (case sp_update_key payload of
                       None \<Rightarrow> Inl Malformed
                     | Some key \<Rightarrow>
                         if \<not> jwk_validates H p key then Inl PolicyRejected
                         else if \<not> valid_multihash H p (sp_delta_hash payload)
                         then Inl PolicyRejected
                         else if \<not> delta_hash_matches H delta (sp_delta_hash payload)
                         then Inl Malformed
                         else if key_commitment_like H key (UpdateCommitment delta)
                                 = Some (UpdateCommitment delta)
                         then Inl KeyReuse
                         else if \<not> is_valid_reveal H key reveal then Inl CommitmentMismatch
                         else if \<not> anchor_time_ok H (sp_anchor_from payload)
                                     (sp_anchor_until payload) (ao_transaction_time anchored)
                         then Inl PolicyRejected
                         else if get_commitment_from_reveal H reveal
                                 \<noteq> Some (rm_update_commitment rm)
                         then Inl CommitmentMismatch
                         else if key_commitment_like H key (rm_update_commitment rm)
                                 \<noteq> Some (rm_update_commitment rm)
                         then Inl CommitmentMismatch
                         else if UpdateCommitment delta = rm_update_commitment rm
                         then Inl KeyReuse
                         else if \<not> validate_delta H p delta then Inl PolicyRejected
                         else (case apply_patches H (rm_doc rm) (Patches delta) of
                                 None \<Rightarrow> Inl Malformed
                               | Some doc \<Rightarrow>
                                   Inr (rm\<lparr>rm_doc := doc,
                                           rm_update_commitment := UpdateCommitment delta\<rparr>))))
      | _ \<Rightarrow> Inl Malformed)"

text \<open>
  Modelled from the spec: Recover (step 4), the shape of an update, with the recovery key and a new recovery
  commitment in the signed data, and \<^verbatim>\<open>delta.update_commitment\<close> different from it. The
  reveal and the key are checked against the current recovery commitment; the delta is
  applied to a fresh document and both commitments and the anchor origin are rewritten.
\<close>

definition apply_recover ::
  "'a Engine_scheme \<Rightarrow> Protocol \<Rightarrow> AnchoredOperation \<Rightarrow> ResolutionModel
     \<Rightarrow> rerr + ResolutionModel" where
  "apply_recover H p anchored rm =
     (case (ao_reveal_value anchored, ao_signed_data anchored, ao_delta anchored) of
        (Some reveal, Some compact, Some delta) \<Rightarrow>
          if ao_unique_suffix anchored = [] then Inl Malformed
          else if \<not> valid_multihash H p reveal then Inl PolicyRejected
          else (case parse_signed_data H p compact of
                  None \<Rightarrow> Inl Malformed
                | Some payload \<Rightarrow>
                    (case sp_recovery_key payload of
                       None \<Rightarrow> Inl Malformed
                     | Some key \<Rightarrow>
                         if \<not> jwk_validates H p key then Inl PolicyRejected
                         else if \<not> valid_multihash H p (sp_recovery_commitment payload)
                         then Inl PolicyRejected
                         else if \<not> valid_multihash H p (sp_delta_hash payload)
                         then Inl PolicyRejected
                         else if \<not> delta_hash_matches H delta (sp_delta_hash payload)
                         then Inl Malformed
                         else if key_commitment_like H key (sp_recovery_commitment payload)
                                 = Some (sp_recovery_commitment payload)
                         then Inl KeyReuse
                         else if UpdateCommitment delta = sp_recovery_commitment payload
                         then Inl KeyReuse
                         else if \<not> is_valid_reveal H key reveal then Inl CommitmentMismatch
                         else if \<not> anchor_time_ok H (sp_anchor_from payload)
                                     (sp_anchor_until payload) (ao_transaction_time anchored)
                         then Inl PolicyRejected
                         else if get_commitment_from_reveal H reveal
                                 \<noteq> Some (rm_recovery_commitment rm)
                         then Inl CommitmentMismatch
                         else if key_commitment_like H key (rm_recovery_commitment rm)
                                 \<noteq> Some (rm_recovery_commitment rm)
                         then Inl CommitmentMismatch
                         else if \<not> validate_delta H p delta then Inl PolicyRejected
                         else Inr \<lparr>rm_doc = (case apply_patches H [] (Patches delta) of
                                                None \<Rightarrow> []
                                              | Some doc \<Rightarrow> doc),
                                   rm_update_commitment = UpdateCommitment delta,
                                   rm_recovery_commitment = sp_recovery_commitment payload,
                                   rm_deactivated = False,
                                   rm_anchor_origin = sp_anchor_origin payload\<rparr>))
      | _ \<Rightarrow> Inl Malformed)"

text \<open>
  Modelled from the spec: Deactivate (step 4). The signed data carries the recovery key and there is no delta.
  On success \<^verbatim>\<open>deactivated\<close> is set and both commitments are cleared; scenario S4 has
  the empty map as the final document.
\<close>

definition apply_deactivate ::
  "'a Engine_scheme \<Rightarrow> Protocol \<Rightarrow> AnchoredOperation \<Rightarrow> ResolutionModel
     \<Rightarrow> rerr + ResolutionModel" where
  "apply_deactivate H p anchored rm =
     (case (ao_reveal_value anchored, ao_signed_data anchored) of
        (Some reveal, Some compact) \<Rightarrow>
          if ao_unique_suffix anchored = [] then Inl Malformed
          else if \<not> valid_multihash H p reveal then Inl PolicyRejected
          else (case parse_signed_data H p compact of
                  None \<Rightarrow> Inl Malformed
                | Some payload \<Rightarrow>
                    (case sp_recovery_key payload of
                       None \<Rightarrow> Inl Malformed
                     | Some key \<Rightarrow>
                         if \<not> jwk_validates H p key then Inl PolicyRejected
                         else if \<not> is_valid_reveal H key reveal then Inl CommitmentMismatch
                         else if \<not> anchor_time_ok H (sp_anchor_from payload)
                                     (sp_anchor_until payload) (ao_transaction_time anchored)
                         then Inl PolicyRejected
                         else if get_commitment_from_reveal H reveal
                                 \<noteq> Some (rm_recovery_commitment rm)
                         then Inl CommitmentMismatch
                         else if key_commitment_like H key (rm_recovery_commitment rm)
                                 \<noteq> Some (rm_recovery_commitment rm)
                         then Inl CommitmentMismatch
                         else Inr (rm\<lparr>rm_doc := [],
                                      rm_update_commitment := [],
                                      rm_recovery_commitment := [],
                                      rm_deactivated := True\<rparr>)))
      | _ \<Rightarrow> Inl Malformed)"

text \<open>
  Modelled from the spec: one operation against the model. Nothing is applied after a successful Deactivate
  (invariant 6), the parameters are those in force at the operation's own
  \<^verbatim>\<open>transaction_time\<close> (section 4.G), and a Create is never applied to an existing model.
\<close>

definition apply_operation ::
  "'a Engine_scheme \<Rightarrow> Protocol list \<Rightarrow> AnchoredOperation \<Rightarrow> ResolutionModel
     \<Rightarrow> rerr + ResolutionModel" where
  "apply_operation H registry anchored rm =
     (if rm_deactivated rm then Inl Terminal
      else (case registry_get registry (ao_transaction_time anchored) of
              None \<Rightarrow> Inl ProtocolUnknown
            | Some p \<Rightarrow>
                (case ao_type anchored of
                   Create \<Rightarrow> Inl Malformed
                 | Update \<Rightarrow> apply_update H p anchored rm
                 | Recover \<Rightarrow> apply_recover H p anchored rm
                 | Deactivate \<Rightarrow> apply_deactivate H p anchored rm)))"

text \<open>
  Modelled from the spec: an operation that fails is discarded and the model is
  unchanged (section 7, propagation policy).
\<close>

definition step ::
  "'a Engine_scheme \<Rightarrow> Protocol list \<Rightarrow> ResolutionModel \<Rightarrow> AnchoredOperation
     \<Rightarrow> ResolutionModel" where
  "step H registry rm anchored =
     (case apply_operation H registry anchored rm of
        Inl err \<Rightarrow> rm
      | Inr rm' \<Rightarrow> rm')"

subsection \<open>Ordering and resolution (section 4.F, steps 2 to 6)\<close>

text \<open>
  Modelled from the spec: step 2. Operations are ordered by transaction time, then
  published before unpublished (an empty canonical reference marks an unpublished
  operation), then by transaction number.
\<close>

definition unpublished_rank :: "AnchoredOperation \<Rightarrow> nat" where
  "unpublished_rank anchored = (if ao_canonical_reference anchored = [] then 1 else 0)"

definition op_before :: "AnchoredOperation \<Rightarrow> AnchoredOperation \<Rightarrow> bool" where
  "op_before a b =
     (ao_transaction_time a < ao_transaction_time b
      \<or> (ao_transaction_time a = ao_transaction_time b
         \<and> (unpublished_rank a < unpublished_rank b
            \<or> (unpublished_rank a = unpublished_rank b
               \<and> ao_transaction_number a < ao_transaction_number b))))"

fun insert_op :: "AnchoredOperation \<Rightarrow> AnchoredOperation list \<Rightarrow> AnchoredOperation list" where
  "insert_op x [] = [x]"
| "insert_op x (y # ys) = (if op_before y x then y # insert_op x ys else x # y # ys)"

definition order_ops :: "AnchoredOperation list \<Rightarrow> AnchoredOperation list" where
  "order_ops ops = foldr insert_op ops []"

text \<open>
  Modelled from the spec: step 3, the first Create that applies; the later ones are
  tried in turn.
\<close>

fun first_valid_create ::
  "'a Engine_scheme \<Rightarrow> Protocol list \<Rightarrow> AnchoredOperation list \<Rightarrow> ResolutionModel option" where
  "first_valid_create H registry [] = None"
| "first_valid_create H registry (c # cs) =
     (case registry_get registry (ao_transaction_time c) of
        None \<Rightarrow> first_valid_create H registry cs
      | Some p \<Rightarrow>
          (case apply_create H p c of
             Inl err \<Rightarrow> first_valid_create H registry cs
           | Inr rm \<Rightarrow> Some rm))"

text \<open>
  Modelled from the spec: steps 4 and 5. A recovery operation is checked against the recovery commitment and an
  update against the update commitment, and neither check reads what the other class
  writes before a surviving recovery rewrites both; so consuming the ordered recovery
  operations and, between two surviving ones, the updates whose coordinates fall in the
  interval, is one pass over all signed operations in order. Resolution options
  (\<^verbatim>\<open>version_id\<close>, \<^verbatim>\<open>version_time\<close>) are outside this model.
\<close>

definition resolve ::
  "'a Engine_scheme \<Rightarrow> Protocol list \<Rightarrow> AnchoredOperation list \<Rightarrow> rerr + ResolutionModel" where
  "resolve H registry ops =
     (case first_valid_create H registry (order_ops (filter (\<lambda>a. ao_type a = Create) ops)) of
        None \<Rightarrow> Inl NotFound
      | Some rm \<Rightarrow>
          Inr (foldl (step H registry) rm
                 (order_ops (filter (\<lambda>a. ao_type a \<noteq> Create) ops))))"

section \<open>Example inputs\<close>

text \<open>
  The inputs at which the theorems below are instantiated. Where the model takes a
  function of another package as a parameter, the examples use a small stand-in: a
  tagged copy of the data in place of a hash, a lookup table in place of a JSON or JWS
  decoder.
\<close>

subsection \<open>Public keys and services\<close>

definition example_jwkValidate :: "docJWK \<Rightarrow> bool" where
  "example_jwkValidate jwk =
     (map_of jwk ''kty'' \<noteq> None \<and> map_of jwk ''crv'' \<noteq> None \<and> map_of jwk ''x'' \<noteq> None)"

definition example_publicKey :: PublicKey where
  "example_publicKey =
     \<lparr>pk_members = [''id'', ''type'', ''purposes'', ''publicKeyJwk''],
      pk_ID = ''key1'',
      pk_Type = ''JsonWebKey2020'',
      pk_Purpose = [''authentication''],
      pk_PublicKeyJwk =
        Some [(''kty'', IString ''EC''), (''crv'', IString ''P-256''),
              (''x'', IString ''PUymIqdtF''), (''y'', IString ''nM84jDHCM'')],
      pk_PublicKeyBase58 = []\<rparr>"

definition example_publicKey_badPurpose :: PublicKey where
  "example_publicKey_badPurpose = example_publicKey\<lparr>pk_Purpose := [''signing'']\<rparr>"

definition example_parseRequestURI :: "string \<Rightarrow> bool" where
  "example_parseRequestURI uri = (take 8 uri = ''https://'')"

definition example_service :: Service where
  "example_service =
     \<lparr>svc_ID = ''hub'',
      svc_Type = ''IdentityHub'',
      svc_ServiceEndpoint = IString ''https://example.com/hub''\<rparr>"

definition example_service_object :: Service where
  "example_service_object =
     example_service
       \<lparr>svc_ServiceEndpoint := IObject [(''origins'', IArray [IString ''example'', INumber 1])]\<rparr>"

subsection \<open>Hashing stand-ins and keys\<close>

definition example_multihash :: "nat \<Rightarrow> string \<Rightarrow> string" where
  "example_multihash code bytes =
     (if code = 18 then ''sha256:'' else if code = 19 then ''sha512:'' else ''other:'') @ bytes"

definition example_code :: "string \<Rightarrow> nat option" where
  "example_code mh =
     (if take 7 mh = ''sha256:'' then Some 18
      else if take 7 mh = ''sha512:'' then Some 19
      else None)"

definition example_canonical :: "JWK \<Rightarrow> string" where
  "example_canonical k = jwk_Crv k @ '','' @ jwk_Kty k @ '','' @ jwk_X k @ '','' @ jwk_Y k"

definition example_recoveryKey :: JWK where
  "example_recoveryKey =
     \<lparr>jwk_Kty = ''EC'', jwk_Crv = ''P-256'', jwk_X = ''Rx'', jwk_Y = ''Ry'', jwk_Nonce = []\<rparr>"

definition example_updateKey :: JWK where
  "example_updateKey =
     \<lparr>jwk_Kty = ''EC'', jwk_Crv = ''P-256'', jwk_X = ''Ux'', jwk_Y = ''Uy'', jwk_Nonce = []\<rparr>"

subsection \<open>A recover request and its parser\<close>

definition example_recoverRequest :: RecoverRequest where
  "example_recoverRequest =
     \<lparr>rr_Operation = ''recover'',
      rr_DidSuffix = ''EiDahaOGH'',
      rr_RevealValue = ''sha256:P-256,EC,Rx,Ry'',
      rr_SignedData = ''header.payload.signature'',
      rr_Delta = Some \<lparr>UpdateCommitment = ''sha256:sha256:P-256,EC,Ux2,Uy2'', Patches = []\<rparr>\<rparr>"

text \<open>The same request with the next update commitment equal to the next recovery commitment.\<close>

definition example_recoverRequest_reuse :: RecoverRequest where
  "example_recoverRequest_reuse =
     example_recoverRequest
       \<lparr>rr_Delta := Some \<lparr>UpdateCommitment = ''sha256:sha256:P-256,EC,Rx2,Ry2'', Patches = []\<rparr>\<rparr>"

definition example_signedData :: RecoverSignedDataModel where
  "example_signedData =
     \<lparr>sd_DeltaHash = ''sha256:delta'',
      sd_RecoveryKey = Some example_recoveryKey,
      sd_RecoveryCommitment = ''sha256:sha256:P-256,EC,Rx2,Ry2'',
      sd_AnchorOrigin = INil,
      sd_AnchorFrom = 1000,
      sd_AnchorUntil = 0\<rparr>"

definition example_signature :: JSONWebSignature where
  "example_signature =
     \<lparr>ProtectedHeaders = Some \<lparr>hdr_members = [''alg'', ''kid''], hdr_Algorithm = (''ES256'', True)\<rparr>,
      Payload = ''payload''\<rparr>"

definition example_Ext :: Ext where
  "example_Ext =
     \<lparr>json_Unmarshal_RecoverRequest =
        (\<lambda>payload. if payload = ''recover'' then Some example_recoverRequest
                    else if payload = ''recover-reuse'' then Some example_recoverRequest_reuse
                    else None),
      json_Unmarshal_RecoverSignedDataModel =
        (\<lambda>payload. if payload = ''payload'' then Some example_signedData else None),
      ParseJWS =
        (\<lambda>compact. if compact = ''header.payload.signature'' then Some example_signature
                    else None),
      JWK_Validate = (\<lambda>k. jwk_Kty k \<noteq> [] \<and> jwk_Crv k \<noteq> [] \<and> jwk_X k \<noteq> []),
      DecodeString = (\<lambda>encoded. Some encoded),
      validateMultihash = (\<lambda>mh alias. example_code mh \<noteq> None),
      ValidateDelta = (\<lambda>delta. delta \<noteq> None),
      GetMultihashCode = example_code,
      CalculateModelMultihash =
        (\<lambda>model code. case model of
                         None \<Rightarrow> Some (example_multihash code ''null'')
                       | Some k \<Rightarrow> Some (example_multihash code (example_canonical k))),
      GetCommitment =
        (\<lambda>model code. case model of
                         None \<Rightarrow> None
                       | Some k \<Rightarrow>
                           Some (example_multihash code
                                   (example_multihash code (example_canonical k))))\<rparr>"

text \<open>
  The anchor-time validator of the first parser accepts exactly the bound 3000, the one
  of the second parser everything but that bound.
\<close>

definition example_Parser :: Parser where
  "example_Parser =
     \<lparr>GenesisTime = 0,
      MultihashAlgorithms = [18],
      SignatureAlgorithms = [''EdDSA'', ''ES256''],
      KeyAlgorithms = [''Ed25519'', ''P-256''],
      MaxDeltaSize = 2000,
      NonceSize = 16,
      anchorOriginValidator = (\<lambda>origin. True),
      anchorTimeValidator = (\<lambda>from until. until = 3000)\<rparr>"

text \<open>The operation that parsing the example request yields.\<close>

definition example_operation :: Operation where
  "example_operation =
     \<lparr>op_Type = ''recover'',
      op_Namespace = [],
      op_ID = [],
      op_UniqueSuffix = ''EiDahaOGH'',
      op_OperationRequest = ''recover'',
      op_SignedData = ''header.payload.signature'',
      op_RevealValue = ''sha256:P-256,EC,Rx,Ry'',
      op_Delta = Some \<lparr>UpdateCommitment = ''sha256:sha256:P-256,EC,Ux2,Uy2'', Patches = []\<rparr>,
      op_SuffixData = None,
      op_AnchorOrigin = INil\<rparr>"

definition example_Parser_strict :: Parser where
  "example_Parser_strict =
     example_Parser\<lparr>anchorTimeValidator := (\<lambda>from until. until \<noteq> 3000)\<rparr>"

subsection \<open>Client requests\<close>

definition example_ClientExt :: ClientExt where
  "example_ClientExt =
     \<lparr>ValidCode = (\<lambda>code. code = 18 \<or> code = 19),
      IsComputedUsingMultihashAlgorithms =
        (\<lambda>mh codes. case example_code mh of None \<Rightarrow> False | Some code \<Rightarrow> code \<in> set codes),
      PatchesFromDocument = (\<lambda>doc. Some [IString doc]),
      CalculateDeltaMultihash =
        (\<lambda>delta code. Some (example_multihash code (''delta:'' @ UpdateCommitment delta))),
      MarshalCanonical = (\<lambda>schema. Some ''create-request'')\<rparr>"

definition example_createInfo_reuse :: CreateRequestInfo where
  "example_createInfo_reuse =
     \<lparr>cri_OpaqueDocument = ''{}'',
      cri_Patches = [],
      cri_RecoveryCommitment = ''sha256:sha256:P-256,EC,Rx,Ry'',
      cri_UpdateCommitment = ''sha256:sha256:P-256,EC,Rx,Ry'',
      cri_AnchorOrigin = INil,
      cri_Type = [],
      cri_MultihashCode = 18\<rparr>"

definition example_UpdateExt :: UpdateExt where
  "example_UpdateExt =
     \<lparr>upd_JWK_Validate = (\<lambda>k. jwk_Kty k \<noteq> [] \<and> jwk_Crv k \<noteq> [] \<and> jwk_X k \<noteq> []),
      upd_CalculateModelMultihash =
        (\<lambda>delta code. Some (example_multihash code (''delta:'' @ UpdateCommitment delta))),
      upd_GetCommitment =
        (\<lambda>model code. case model of
                         None \<Rightarrow> None
                       | Some k \<Rightarrow>
                           Some (example_multihash code
                                   (example_multihash code (example_canonical k)))),
      upd_SignModel = (\<lambda>model signer. Some ''header.payload.signature''),
      upd_MarshalCanonical = (\<lambda>schema. Some ''update-request'')\<rparr>"

definition example_updateInfo_reuse :: UpdateRequestInfo where
  "example_updateInfo_reuse =
     \<lparr>uri_DidSuffix = ''EiDahaOGH'',
      uri_Patches = [IString ''patch''],
      uri_UpdateCommitment = ''sha256:sha256:P-256,EC,Ux,Uy'',
      uri_UpdateKey = Some example_updateKey,
      uri_MultihashCode = 18,
      uri_Signer =
        Some \<lparr>sg_Headers = Some \<lparr>hdr_members = [''alg''], hdr_Algorithm = (''ES256'', True)\<rparr>\<rparr>,
      uri_RevealValue = ''sha256:P-256,EC,Ux,Uy'',
      uri_AnchorFrom = 0,
      uri_AnchorUntil = 0\<rparr>"

subsection \<open>A history for the resolver\<close>

text \<open>
  Two protocol epochs, as in the processor's tests: SHA2-256 (code 18) from time 0, then
  SHA2-512 (code 19) first and SHA2-256 still permitted from time 100.
\<close>

definition example_protocol0 :: Protocol where
  "example_protocol0 =
     \<lparr>GenesisTime = 0,
      MultihashAlgorithms = [18],
      SignatureAlgorithms = [''EdDSA'', ''ES256''],
      KeyAlgorithms = [''Ed25519'', ''P-256''],
      MaxDeltaSize = 2000,
      NonceSize = 16\<rparr>"

definition example_protocol100 :: Protocol where
  "example_protocol100 =
     example_protocol0\<lparr>GenesisTime := 100, MultihashAlgorithms := [19, 18]\<rparr>"

definition example_registry :: "Protocol list" where
  "example_registry = [example_protocol0, example_protocol100]"




definition example_payload :: "string \<Rightarrow> SignedPayload option" where
  "example_payload compact =
     (if compact = ''update-jws''
      then Some \<lparr>sp_update_key = Some example_updateKey,
                 sp_recovery_key = None,
                 sp_delta_hash = ''sha512:delta:sha512:sha512:P-256,EC,Ux2,Uy2'',
                 sp_recovery_commitment = [],
                 sp_anchor_origin = INil,
                 sp_anchor_from = 0,
                 sp_anchor_until = 0\<rparr>
      else if compact = ''update-reuse-jws''
      then Some \<lparr>sp_update_key = Some example_updateKey,
                 sp_recovery_key = None,
                 sp_delta_hash = ''sha256:delta:sha256:sha256:P-256,EC,Ux,Uy'',
                 sp_recovery_commitment = [],
                 sp_anchor_origin = INil,
                 sp_anchor_from = 0,
                 sp_anchor_until = 0\<rparr>
      else if compact = ''deactivate-jws''
      then Some \<lparr>sp_update_key = None,
                 sp_recovery_key = Some example_recoveryKey,
                 sp_delta_hash = [],
                 sp_recovery_commitment = [],
                 sp_anchor_origin = INil,
                 sp_anchor_from = 0,
                 sp_anchor_until = 0\<rparr>
      else if compact = ''recover-jws''
      then Some \<lparr>sp_update_key = None,
                 sp_recovery_key = Some example_recoveryKey,
                 sp_delta_hash = ''sha512:delta:sha512:sha512:P-256,EC,Ux3,Uy3'',
                 sp_recovery_commitment = ''sha512:sha512:P-256,EC,Rx2,Ry2'',
                 sp_anchor_origin = INil,
                 sp_anchor_from = 0,
                 sp_anchor_until = 0\<rparr>
      else None)"

definition example_Engine :: Engine where
  "example_Engine =
     \<lparr>multihash = example_multihash,
      algorithm_of = example_code,
      canonicalize_jwk = example_canonical,
      canonicalize_delta = (\<lambda>delta. ''delta:'' @ UpdateCommitment delta),
      parse_signed_data = (\<lambda>p compact. example_payload compact),
      jwk_validates = (\<lambda>p k. jwk_Crv k \<in> set (KeyAlgorithms p)),
      validate_delta = (\<lambda>p delta. True),
      apply_patches = (\<lambda>doc patches. Some [(''content'', IArray patches)]),
      anchor_time_ok = (\<lambda>from until t. True)\<rparr>"

definition example_create :: AnchoredOperation where
  "example_create =
     \<lparr>ao_type = Create,
      ao_unique_suffix = ''EiDahaOGH'',
      ao_delta =
        Some \<lparr>UpdateCommitment = ''sha256:sha256:P-256,EC,Ux,Uy'', Patches = [IString ''v0'']\<rparr>,
      ao_suffix_data =
        Some \<lparr>sfx_DeltaHash = ''sha256:delta:sha256:sha256:P-256,EC,Ux,Uy'',
              sfx_RecoveryCommitment = ''sha256:sha256:P-256,EC,Rx,Ry'',
              sfx_AnchorOrigin = INil,
              sfx_Type = []\<rparr>,
      ao_signed_data = None,
      ao_reveal_value = None,
      ao_transaction_time = 0,
      ao_transaction_number = 0,
      ao_protocol_version = 0,
      ao_canonical_reference = ''ref0''\<rparr>"

text \<open>
  An update anchored at time 200, after the protocol change: its reveal value is
  computed with SHA2-256, the algorithm of the commitment it answers.
\<close>

definition example_update :: AnchoredOperation where
  "example_update =
     \<lparr>ao_type = Update,
      ao_unique_suffix = ''EiDahaOGH'',
      ao_delta =
        Some \<lparr>UpdateCommitment = ''sha512:sha512:P-256,EC,Ux2,Uy2'', Patches = [IString ''v200'']\<rparr>,
      ao_suffix_data = None,
      ao_signed_data = Some ''update-jws'',
      ao_reveal_value = Some ''sha256:P-256,EC,Ux,Uy'',
      ao_transaction_time = 200,
      ao_transaction_number = 1,
      ao_protocol_version = 100,
      ao_canonical_reference = ''ref200''\<rparr>"

text \<open>An update whose next commitment is the commitment it answers.\<close>

definition example_update_reuse :: AnchoredOperation where
  "example_update_reuse =
     example_update
       \<lparr>ao_delta :=
          Some \<lparr>UpdateCommitment = ''sha256:sha256:P-256,EC,Ux,Uy'', Patches = [IString ''v200'']\<rparr>,
        ao_signed_data := Some ''update-reuse-jws''\<rparr>"

text \<open>The same update anchored later, after the deactivation.\<close>

definition example_update_late :: AnchoredOperation where
  "example_update_late =
     example_update
       \<lparr>ao_transaction_time := 400,
        ao_transaction_number := 3,
        ao_canonical_reference := ''ref400''\<rparr>"

definition example_deactivate :: AnchoredOperation where
  "example_deactivate =
     \<lparr>ao_type = Deactivate,
      ao_unique_suffix = ''EiDahaOGH'',
      ao_delta = None,
      ao_suffix_data = None,
      ao_signed_data = Some ''deactivate-jws'',
      ao_reveal_value = Some ''sha256:P-256,EC,Rx,Ry'',
      ao_transaction_time = 300,
      ao_transaction_number = 2,
      ao_protocol_version = 100,
      ao_canonical_reference = ''ref300''\<rparr>"


definition example_created :: ResolutionModel where
  "example_created =
     \<lparr>rm_doc = [(''content'', IArray [IString ''v0''])],
      rm_update_commitment = ''sha256:sha256:P-256,EC,Ux,Uy'',
      rm_recovery_commitment = ''sha256:sha256:P-256,EC,Rx,Ry'',
      rm_deactivated = False,
      rm_anchor_origin = INil\<rparr>"

definition example_deactivated :: ResolutionModel where
  "example_deactivated =
     \<lparr>rm_doc = [],
      rm_update_commitment = [],
      rm_recovery_commitment = [],
      rm_deactivated = True,
      rm_anchor_origin = INil\<rparr>"

section \<open>Properties of the patch validator\<close>

lemma contains_iff: "contains xs x \<longleftrightarrow> x \<in> set xs"
  by (induction xs) auto

lemma find_Some_in: "find P xs = Some x \<Longrightarrow> P x \<and> x \<in> set xs"
  by (induction xs) (auto split: if_splits)

lemma keyTypePurposes_sound:
  "keyTypePurposes t ps \<Longrightarrow>
     \<forall>p\<in>set ps. \<exists>allowed. allowedKeyTypes p = Some allowed \<and> t \<in> set allowed"
  by (induction ps) (auto split: option.splits if_splits)

lemma validateKeyPurposes_sound:
  "validateKeyPurposes k = None \<Longrightarrow> \<forall>p\<in>set (pk_Purpose k). p \<in> set allowedPurposes"
  by (auto simp: validateKeyPurposes_def Let_def find_None_iff split: if_splits option.splits)

lemma validateID_sound:
  "validateID i = None \<Longrightarrow> length i \<le> 50 \<and> asciiRegex_MatchString i"
  by (auto simp: validateID_def maxIDLength_def split: if_splits)

lemma of_char_range:
  "of_char c \<in> {a..b::nat} \<longleftrightarrow> c \<in> set (map char_of [a..<Suc b])" if "b < 256"
proof -
  have "c \<in> set (map char_of [a..<Suc b]) \<longleftrightarrow> (\<exists>n. a \<le> n \<and> n \<le> b \<and> c = char_of n)"
    by auto
  also have "\<dots> \<longleftrightarrow> a \<le> of_char c \<and> of_char c \<le> b"
  proof
    assume "\<exists>n. a \<le> n \<and> n \<le> b \<and> c = char_of n"
    then obtain n where n: "a \<le> n" "n \<le> b" "c = char_of n" by blast
    with that have "of_char c = n" by (simp add: take_bit_nat_eq_self)
    with n show "a \<le> of_char c \<and> of_char c \<le> b" by simp
  next
    assume "a \<le> of_char c \<and> of_char c \<le> b"
    then show "\<exists>n. a \<le> n \<and> n \<le> b \<and> c = char_of n"
      by (intro exI[of _ "of_char c"]) simp
  qed
  finally show ?thesis by auto
qed

text \<open>The character class of \<^verbatim>\<open>asciiRegex\<close>, written out.\<close>

lemma asciiClass_alphabet:
  "asciiClass c \<longleftrightarrow>
     c \<in> set ''ABCDEFGHIJKLMNOPQRSTUVWXYZabcdefghijklmnopqrstuvwxyz0123456789_-''"
proof -
  have u: "set (map char_of [65..<Suc 90 :: nat]) = set ''ABCDEFGHIJKLMNOPQRSTUVWXYZ''"
    by code_simp
  have l: "set (map char_of [97..<Suc 122 :: nat]) = set ''abcdefghijklmnopqrstuvwxyz''"
    by code_simp
  have d: "set (map char_of [48..<Suc 57 :: nat]) = set ''0123456789''"
    by code_simp
  have r1: "of_char c \<in> {65..90::nat} \<longleftrightarrow> c \<in> set ''ABCDEFGHIJKLMNOPQRSTUVWXYZ''"
    unfolding u[symmetric] by (rule of_char_range) simp
  have r2: "of_char c \<in> {97..122::nat} \<longleftrightarrow> c \<in> set ''abcdefghijklmnopqrstuvwxyz''"
    unfolding l[symmetric] by (rule of_char_range) simp
  have r3: "of_char c \<in> {48..57::nat} \<longleftrightarrow> c \<in> set ''0123456789''"
    unfolding d[symmetric] by (rule of_char_range) simp
  have "asciiClass c \<longleftrightarrow> of_char c \<in> {65..90::nat} \<or> of_char c \<in> {97..122::nat}
          \<or> of_char c \<in> {48..57::nat} \<or> c = CHR ''_'' \<or> c = CHR ''-''"
    by (simp add: asciiClass_def Let_def)
  also have "\<dots> \<longleftrightarrow> c \<in> set ''ABCDEFGHIJKLMNOPQRSTUVWXYZ''
          \<or> c \<in> set ''abcdefghijklmnopqrstuvwxyz''
          \<or> c \<in> set ''0123456789'' \<or> c = CHR ''_'' \<or> c = CHR ''-''"
    by (simp only: r1 r2 r3)
  also have "\<dots> \<longleftrightarrow>
      c \<in> set ''ABCDEFGHIJKLMNOPQRSTUVWXYZabcdefghijklmnopqrstuvwxyz0123456789_-''"
    by auto
  finally show ?thesis .
qed

lemma asciiRegex_MatchString_alphabet:
  "asciiRegex_MatchString s \<longleftrightarrow>
     s \<noteq> []
     \<and> set s \<subseteq> set ''ABCDEFGHIJKLMNOPQRSTUVWXYZabcdefghijklmnopqrstuvwxyz0123456789_-''"
  unfolding asciiRegex_MatchString_def list_all_iff asciiClass_alphabet by blast

lemma validateKeyTypePurpose_sound:
  "validateKeyTypePurpose k \<Longrightarrow>
     (\<forall>p\<in>set (pk_Purpose k).
         \<exists>allowed. allowedKeyTypes p = Some allowed \<and> pk_Type k \<in> set allowed)
     \<and> (pk_Purpose k = [] \<longrightarrow> pk_Type k \<in> set allowedKeyTypesGeneral)"
  using keyTypePurposes_sound[of "pk_Type k" "pk_Purpose k"]
  by (auto simp: validateKeyTypePurpose_def split: if_splits)

lemma validatePublicKeysFrom_each:
  "validatePublicKeysFrom V ids keys = None \<Longrightarrow>
     \<forall>k\<in>set keys. validateID (pk_ID k) = None \<and> validateKeyPurposes k = None
        \<and> validateKeyTypePurpose k"
proof (induction keys arbitrary: ids)
  case Nil
  then show ?case by simp
next
  case (Cons k keys)
  from Cons.prems have h: "validateID (pk_ID k) = None"
     "validateKeyPurposes k = None" "validateKeyTypePurpose k"
     "validatePublicKeysFrom V (pk_ID k # ids) keys = None"
    by (auto split: option.splits if_splits)
  with Cons.IH[OF h(4)] show ?case by simp
qed

lemma allowedPurposes_explicit:
  "set allowedPurposes = {''authentication'', ''assertionMethod'', ''keyAgreement'',
      ''capabilityDelegation'', ''capabilityInvocation''}"
  by (simp add: allowedPurposes_def KeyPurposeAuthentication_def KeyPurposeAssertionMethod_def
       KeyPurposeKeyAgreement_def KeyPurposeCapabilityDelegation_def
       KeyPurposeCapabilityInvocation_def)

text \<open>
  Claim C7. A list of public keys validates only if every key's id has at most 50
  characters and matches \<^verbatim>\<open>[A-Za-z0-9_-]+\<close> (it is not empty and all its characters are
  in the class), every listed purpose is one of the five allowed purposes, and the key's
  type is in the allow-list of each of its purposes (in the general allow-list when the
  key lists no purpose). A key that violates one of these makes the validation of the
  whole list fail.
\<close>

theorem public_keys_validate_only_if_well_formed:
  assumes "validatePublicKeys jwkValidate pubKeys = None"
  shows "\<forall>k\<in>set pubKeys.
           length (pk_ID k) \<le> 50
         \<and> pk_ID k \<noteq> []
         \<and> set (pk_ID k)
             \<subseteq> set ''ABCDEFGHIJKLMNOPQRSTUVWXYZabcdefghijklmnopqrstuvwxyz0123456789_-''
         \<and> (\<forall>purpose\<in>set (pk_Purpose k).
               purpose \<in> {''authentication'', ''assertionMethod'', ''keyAgreement'',
                          ''capabilityDelegation'', ''capabilityInvocation''})
         \<and> (\<forall>purpose\<in>set (pk_Purpose k).
               \<exists>allowed. allowedKeyTypes purpose = Some allowed \<and> pk_Type k \<in> set allowed)
         \<and> (pk_Purpose k = [] \<longrightarrow> pk_Type k \<in> set allowedKeyTypesGeneral)"
proof
  fix k assume "k \<in> set pubKeys"
  with validatePublicKeysFrom_each[OF assms[unfolded validatePublicKeys_def]]
  have v: "validateID (pk_ID k) = None" "validateKeyPurposes k = None"
      "validateKeyTypePurpose k"
    by auto
  from validateID_sound[OF v(1)] have i: "length (pk_ID k) \<le> 50" "pk_ID k \<noteq> []"
      "set (pk_ID k)
         \<subseteq> set ''ABCDEFGHIJKLMNOPQRSTUVWXYZabcdefghijklmnopqrstuvwxyz0123456789_-''"
    unfolding asciiRegex_MatchString_alphabet by blast+
  from validateKeyPurposes_sound[OF v(2)] have p: "\<forall>purpose\<in>set (pk_Purpose k).
               purpose \<in> {''authentication'', ''assertionMethod'', ''keyAgreement'',
                          ''capabilityDelegation'', ''capabilityInvocation''}"
    unfolding allowedPurposes_explicit by blast
  from i p validateKeyTypePurpose_sound[OF v(3)]
  show "length (pk_ID k) \<le> 50
         \<and> pk_ID k \<noteq> []
         \<and> set (pk_ID k)
             \<subseteq> set ''ABCDEFGHIJKLMNOPQRSTUVWXYZabcdefghijklmnopqrstuvwxyz0123456789_-''
         \<and> (\<forall>purpose\<in>set (pk_Purpose k).
               purpose \<in> {''authentication'', ''assertionMethod'', ''keyAgreement'',
                          ''capabilityDelegation'', ''capabilityInvocation''})
         \<and> (\<forall>purpose\<in>set (pk_Purpose k).
               \<exists>allowed. allowedKeyTypes purpose = Some allowed \<and> pk_Type k \<in> set allowed)
         \<and> (pk_Purpose k = [] \<longrightarrow> pk_Type k \<in> set allowedKeyTypesGeneral)"
    by blast
qed

theorem public_keys_validate_only_if_well_formed_witness:
  "validatePublicKeys example_jwkValidate [example_publicKey] = None
   \<and> length (pk_ID example_publicKey) \<le> 50
   \<and> pk_ID example_publicKey \<noteq> []
   \<and> (\<exists>allowed. allowedKeyTypes ''authentication'' = Some allowed
         \<and> ''JsonWebKey2020'' \<in> set allowed)"
proof -
  have v: "validatePublicKeys example_jwkValidate [example_publicKey] = None"
    by code_simp
  have e: "pk_Purpose example_publicKey = [''authentication'']"
      "pk_Type example_publicKey = ''JsonWebKey2020''"
    by (simp_all add: example_publicKey_def)
  from public_keys_validate_only_if_well_formed[OF v] v e show ?thesis
    by simp
qed

lemma validateURIs_sound:
  "validateURIs U uris = None \<Longrightarrow> \<forall>u\<in>set uris. u \<noteq> [] \<and> U u"
  by (induction uris) (auto simp: validateURI_def split: option.splits if_splits)

text \<open>
  The loop over a \<^verbatim>\<open>[]interface{}\<close> endpoint returns at its first string: a later
  string is never parsed, while \<^verbatim>\<open>validateURIs\<close> on a \<^verbatim>\<open>[]string\<close> parses every one.
\<close>

lemma validateServiceEndpointObjects_first_string_only:
  "validateServiceEndpointObjects example_parseRequestURI
     [IString ''https://example.com/hub'', IString ''not a uri''] = None
   \<and> validateURIs example_parseRequestURI [''https://example.com/hub'', ''not a uri'']
       = Some (ServiceEndpointNotURI ''not a uri'')"
  by code_simp

text \<open>
  Claim C8, as stated, fails: a service whose endpoint is a JSON object, which is neither
  a URI, nor a list of URIs, nor a list of objects, validates.
\<close>

theorem service_with_object_endpoint_validates:
  "svc_ServiceEndpoint example_service_object
     = IObject [(''origins'', IArray [IString ''example'', INumber 1])]
   \<and> validateService example_parseRequestURI example_service_object = None"
  by code_simp

text \<open>
  Claim C8, amended. A service validates only if its type is non-empty and at most 30
  characters long and its \<^verbatim>\<open>serviceEndpoint\<close> is present; an endpoint that is a single
  string is a non-empty valid URI, and every element of an endpoint that is a list of
  strings (\<^verbatim>\<open>[]string\<close>) is a non-empty valid URI. An endpoint that is an object, a
  number or a boolean is accepted as it is, once the id and the type have passed.
\<close>

theorem service_validation_checks:
  "(validateService parseRequestURI service = None \<longrightarrow>
       svc_Type service \<noteq> [] \<and> length (svc_Type service) \<le> 30
     \<and> svc_ServiceEndpoint service \<noteq> INil
     \<and> (\<forall>uri. svc_ServiceEndpoint service = IString uri
           \<longrightarrow> uri \<noteq> [] \<and> parseRequestURI uri)
     \<and> (\<forall>uris. svc_ServiceEndpoint service = IStrings uris
           \<longrightarrow> (\<forall>uri\<in>set uris. uri \<noteq> [] \<and> parseRequestURI uri)))
   \<and> (validateServiceID (svc_ID service) = None
        \<and> validateServiceType (svc_Type service) = None
        \<and> ((\<exists>members. svc_ServiceEndpoint service = IObject members)
           \<or> (\<exists>n. svc_ServiceEndpoint service = INumber n)
           \<or> (\<exists>b. svc_ServiceEndpoint service = IBool b))
      \<longrightarrow> validateService parseRequestURI service = None)"
proof (intro conjI impI)
  assume v: "validateService parseRequestURI service = None"
  then have t: "validateServiceType (svc_Type service) = None"
    and e: "validateServiceEndpoint parseRequestURI (svc_ServiceEndpoint service) = None"
    by (auto simp: validateService_def split: option.splits)
  from t show "svc_Type service \<noteq> []" "length (svc_Type service) \<le> 30"
    by (auto simp: validateServiceType_def maxServiceTypeLength_def split: if_splits)
  from e show "svc_ServiceEndpoint service \<noteq> INil"
    by (auto simp: validateServiceEndpoint_def)
  from e show "\<forall>uri. svc_ServiceEndpoint service = IString uri
                 \<longrightarrow> uri \<noteq> [] \<and> parseRequestURI uri"
    by (auto simp: validateServiceEndpoint_def validateURI_def split: if_splits)
  show "\<forall>uris. svc_ServiceEndpoint service = IStrings uris
           \<longrightarrow> (\<forall>uri\<in>set uris. uri \<noteq> [] \<and> parseRequestURI uri)"
  proof (intro allI impI)
    fix uris assume "svc_ServiceEndpoint service = IStrings uris"
    with e have "validateURIs parseRequestURI uris = None"
      by (simp add: validateServiceEndpoint_def)
    then show "\<forall>uri\<in>set uris. uri \<noteq> [] \<and> parseRequestURI uri"
      by (rule validateURIs_sound)
  qed
next
  assume "validateServiceID (svc_ID service) = None
        \<and> validateServiceType (svc_Type service) = None
        \<and> ((\<exists>members. svc_ServiceEndpoint service = IObject members)
           \<or> (\<exists>n. svc_ServiceEndpoint service = INumber n)
           \<or> (\<exists>b. svc_ServiceEndpoint service = IBool b))"
  then show "validateService parseRequestURI service = None"
    by (auto simp: validateService_def validateServiceEndpoint_def)
qed

theorem service_validation_checks_witness:
  "validateService example_parseRequestURI example_service = None
   \<and> svc_ServiceEndpoint example_service = IString ''https://example.com/hub''
   \<and> svc_Type example_service \<noteq> []
   \<and> length (svc_Type example_service) \<le> 30
   \<and> example_parseRequestURI ''https://example.com/hub''"
proof -
  have v: "validateService example_parseRequestURI example_service = None"
    by code_simp
  have e: "svc_ServiceEndpoint example_service = IString ''https://example.com/hub''"
    by (simp add: example_service_def)
  from service_validation_checks[of example_parseRequestURI example_service] v e
  show ?thesis by simp
qed

lemma validatePublicKeysFrom_distinct:
  "validatePublicKeysFrom V ids keys = None \<Longrightarrow>
     distinct (map pk_ID keys) \<and> set (map pk_ID keys) \<inter> set ids = {}"
proof (induction keys arbitrary: ids)
  case Nil
  then show ?case by simp
next
  case (Cons k keys)
  from Cons.prems have h: "pk_ID k \<notin> set ids"
     "validatePublicKeysFrom V (pk_ID k # ids) keys = None"
    by (auto split: option.splits if_splits)
  from Cons.IH[OF h(2)] h(1) show ?case by auto
qed

lemma validatePublicKeysFrom_single:
  "validatePublicKeysFrom V [] [k] = None \<Longrightarrow>
     validatePublicKeysFrom V ids (k # keys)
       = (if pk_ID k \<in> set ids then Some (DuplicatePublicKeyID (pk_ID k))
          else validatePublicKeysFrom V (pk_ID k # ids) keys)"
  by (auto split: option.splits if_splits)

lemma validatePublicKeysFrom_only_duplicates:
  "\<forall>k\<in>set keys. validatePublicKeysFrom V [] [k] = None \<Longrightarrow>
     validatePublicKeysFrom V ids keys = None
     \<or> (\<exists>kid. validatePublicKeysFrom V ids keys = Some (DuplicatePublicKeyID kid)
           \<and> kid \<in> set (map pk_ID keys))"
proof (induction keys arbitrary: ids)
  case Nil
  then show ?case by simp
next
  case (Cons k keys)
  then have s: "validatePublicKeysFrom V [] [k] = None" by simp
  from Cons.prems have "\<forall>k\<in>set keys. validatePublicKeysFrom V [] [k] = None" by simp
  from Cons.IH[OF this, of "pk_ID k # ids"] show ?case
    unfolding validatePublicKeysFrom_single[OF s] by auto
qed

lemma validateServicesFrom_distinct:
  "validateServicesFrom U ids services = None \<Longrightarrow>
     distinct (map svc_ID services) \<and> set (map svc_ID services) \<inter> set ids = {}"
proof (induction services arbitrary: ids)
  case Nil
  then show ?case by simp
next
  case (Cons s services)
  from Cons.prems have h: "svc_ID s \<notin> set ids"
     "validateServicesFrom U (svc_ID s # ids) services = None"
    by (auto split: option.splits if_splits)
  from Cons.IH[OF h(2)] h(1) show ?case by auto
qed

lemma validateServicesFrom_only_duplicates:
  "\<forall>s\<in>set services. validateService U s = None \<Longrightarrow>
     validateServicesFrom U ids services = None
     \<or> (\<exists>sid. validateServicesFrom U ids services = Some (DuplicateServiceID sid)
           \<and> sid \<in> set (map svc_ID services))"
  by (induction services arbitrary: ids) auto

text \<open>
  Claim C10, as stated, fails: two public keys share the id \<^verbatim>\<open>key1\<close>, and validation
  fails with the error of the first key's purpose, not with a duplicate-id error.
\<close>

theorem duplicate_id_reported_as_other_error:
  "pk_ID example_publicKey_badPurpose = pk_ID example_publicKey
   \<and> validatePublicKeys example_jwkValidate [example_publicKey_badPurpose, example_publicKey]
       = Some (InvalidPurpose ''signing'')"
  by code_simp

text \<open>
  Claim C10, amended. Within one list, two public keys that share an id make validation
  fail (the second entry never replaces the first); when every key of the list validates
  on its own, the error is the duplicate-id error, for an id of the list. The same holds
  for two services that share an id.
\<close>

theorem duplicate_ids_rejected:
  "(\<not> distinct (map pk_ID pubKeys) \<longrightarrow> validatePublicKeys jwkValidate pubKeys \<noteq> None)
   \<and> (\<not> distinct (map pk_ID pubKeys)
        \<and> (\<forall>k\<in>set pubKeys. validatePublicKeys jwkValidate [k] = None)
      \<longrightarrow> (\<exists>kid. validatePublicKeys jwkValidate pubKeys = Some (DuplicatePublicKeyID kid)
             \<and> kid \<in> set (map pk_ID pubKeys)))
   \<and> (\<not> distinct (map svc_ID services)
      \<longrightarrow> validateServices parseRequestURI services \<noteq> None)
   \<and> (\<not> distinct (map svc_ID services)
        \<and> (\<forall>s\<in>set services. validateService parseRequestURI s = None)
      \<longrightarrow> (\<exists>sid. validateServices parseRequestURI services = Some (DuplicateServiceID sid)
             \<and> sid \<in> set (map svc_ID services)))"
proof (intro conjI impI)
  assume "\<not> distinct (map pk_ID pubKeys)"
  then show "validatePublicKeys jwkValidate pubKeys \<noteq> None"
    unfolding validatePublicKeys_def using validatePublicKeysFrom_distinct by blast
next
  assume h: "\<not> distinct (map pk_ID pubKeys)
        \<and> (\<forall>k\<in>set pubKeys. validatePublicKeys jwkValidate [k] = None)"
  then have n: "validatePublicKeysFrom jwkValidate [] pubKeys \<noteq> None"
    using validatePublicKeysFrom_distinct by blast
  from h have "\<forall>k\<in>set pubKeys. validatePublicKeysFrom jwkValidate [] [k] = None"
    unfolding validatePublicKeys_def by blast
  then have "validatePublicKeysFrom jwkValidate [] pubKeys = None
     \<or> (\<exists>kid. validatePublicKeysFrom jwkValidate [] pubKeys = Some (DuplicatePublicKeyID kid)
           \<and> kid \<in> set (map pk_ID pubKeys))"
    by (rule validatePublicKeysFrom_only_duplicates)
  with n show "\<exists>kid. validatePublicKeys jwkValidate pubKeys = Some (DuplicatePublicKeyID kid)
             \<and> kid \<in> set (map pk_ID pubKeys)"
    unfolding validatePublicKeys_def by auto
next
  assume "\<not> distinct (map svc_ID services)"
  then show "validateServices parseRequestURI services \<noteq> None"
    unfolding validateServices_def using validateServicesFrom_distinct by blast
next
  assume h: "\<not> distinct (map svc_ID services)
        \<and> (\<forall>s\<in>set services. validateService parseRequestURI s = None)"
  then have n: "validateServicesFrom parseRequestURI [] services \<noteq> None"
    using validateServicesFrom_distinct by blast
  from h have "\<forall>s\<in>set services. validateService parseRequestURI s = None"
    by blast
  then have "validateServicesFrom parseRequestURI [] services = None
     \<or> (\<exists>sid. validateServicesFrom parseRequestURI [] services
                 = Some (DuplicateServiceID sid)
           \<and> sid \<in> set (map svc_ID services))"
    by (rule validateServicesFrom_only_duplicates)
  with n show "\<exists>sid. validateServices parseRequestURI services = Some (DuplicateServiceID sid)
             \<and> sid \<in> set (map svc_ID services)"
    unfolding validateServices_def by auto
qed

theorem duplicate_ids_rejected_witness:
  "\<not> distinct (map pk_ID [example_publicKey, example_publicKey])
   \<and> validatePublicKeys example_jwkValidate [example_publicKey] = None
   \<and> (\<exists>kid. validatePublicKeys example_jwkValidate [example_publicKey, example_publicKey]
                = Some (DuplicatePublicKeyID kid))
   \<and> \<not> distinct (map svc_ID [example_service, example_service])
   \<and> validateService example_parseRequestURI example_service = None
   \<and> (\<exists>sid. validateServices example_parseRequestURI [example_service, example_service]
                = Some (DuplicateServiceID sid))"
proof -
  have k: "validatePublicKeys example_jwkValidate [example_publicKey] = None"
    by code_simp
  have s: "validateService example_parseRequestURI example_service = None"
    by code_simp
  from duplicate_ids_rejected[of "[example_publicKey, example_publicKey]" example_jwkValidate
         "[example_service, example_service]" example_parseRequestURI] k s
  show ?thesis by auto
qed

section \<open>Properties of the recover parser and of the client\<close>

lemma validateProtectedHeaders_None_iff:
  "validateProtectedHeaders headers allowed = None \<longleftrightarrow>
     (\<exists>h alg. headers = Some h \<and> hdr_Algorithm h = (alg, True) \<and> alg \<noteq> []
        \<and> alg \<in> set allowed \<and> set (hdr_members h) \<subseteq> {''alg'', ''kid''})"
  by (cases headers; cases "hdr_Algorithm (the headers)")
     (auto simp: validateProtectedHeaders_def Let_def contains_iff find_None_iff
        HeaderAlgorithm_def HeaderKeyID_def split: option.splits if_splits
        dest!: find_Some_in)

text \<open>
  Claim C6. Parsing the signed data of an operation succeeds exactly when the compact
  JWS is not empty, it parses, and its protected header is a map whose \<^verbatim>\<open>alg\<close> is
  present and not empty, is one of the protocol's signature algorithms, and which has no
  member other than \<^verbatim>\<open>alg\<close> and \<^verbatim>\<open>kid\<close>. So a missing header map, a missing or empty
  \<^verbatim>\<open>alg\<close>, an \<^verbatim>\<open>alg\<close> outside the allow-list and an extra member each make parsing
  return an error.
\<close>

theorem protected_headers_validated:
  "parseSignedData E p compactJWS = Inr sig \<longleftrightarrow>
     compactJWS \<noteq> [] \<and> ParseJWS E compactJWS = Some sig \<and>
     (\<exists>h alg. ProtectedHeaders sig = Some h \<and> hdr_Algorithm h = (alg, True) \<and> alg \<noteq> []
        \<and> alg \<in> set (SignatureAlgorithms p)
        \<and> set (hdr_members h) \<subseteq> {''alg'', ''kid''})"
  unfolding validateProtectedHeaders_None_iff[symmetric]
  by (auto simp: parseSignedData_def split: option.splits if_splits)

theorem protected_headers_validated_witness:
  "parseSignedData example_Ext example_Parser ''header.payload.signature''
     = Inr example_signature
   \<and> (\<exists>h alg. ProtectedHeaders example_signature = Some h
         \<and> hdr_Algorithm h = (alg, True) \<and> alg \<noteq> []
         \<and> alg \<in> set (SignatureAlgorithms example_Parser)
         \<and> set (hdr_members h) \<subseteq> {''alg'', ''kid''})"
proof -
  have v: "parseSignedData example_Ext example_Parser ''header.payload.signature''
             = Inr example_signature"
    by code_simp
  from v protected_headers_validated[of example_Ext example_Parser
         "''header.payload.signature''" example_signature]
  show ?thesis by blast
qed

lemma IsValidModelMultihash_None_iff:
  "IsValidModelMultihash E model mh = None \<longleftrightarrow>
     (\<exists>code. GetMultihashCode E mh = Some code
        \<and> CalculateModelMultihash E model code = Some mh)"
  by (auto simp: IsValidModelMultihash_def split: option.splits)

text \<open>
  Claim C2. \<^verbatim>\<open>ParseRecoverOperation\<close> returns an operation, in batch mode and in
  non-batch mode alike, only if the multihash of the canonical recovery key of the
  signed data, computed with the algorithm that the request's reveal value encodes, is
  that reveal value; the operation carries that reveal value. Any mismatch is an error.
\<close>

theorem recover_reveal_matches_key:
  "ParseRecoverOperation E p request batch = Inr operation \<Longrightarrow>
     \<exists>schema signedData code.
        parseRecoverRequest E request = Inr schema
      \<and> ParseSignedDataForRecover E p (rr_SignedData schema) = Inr signedData
      \<and> op_RevealValue operation = rr_RevealValue schema
      \<and> GetMultihashCode E (rr_RevealValue schema) = Some code
      \<and> CalculateModelMultihash E (sd_RecoveryKey signedData) code
          = Some (rr_RevealValue schema)"
  unfolding ParseRecoverOperation_def
  by (auto simp: IsValidModelMultihash_None_iff split: sum.splits option.splits)

theorem recover_reveal_matches_key_witness:
  "ParseRecoverOperation example_Ext example_Parser ''recover'' True = Inr example_operation
   \<and> ParseRecoverOperation example_Ext example_Parser ''recover'' False = Inr example_operation
   \<and> GetMultihashCode example_Ext ''sha256:P-256,EC,Rx,Ry'' = Some 18
   \<and> (\<exists>schema signedData code.
         parseRecoverRequest example_Ext ''recover'' = Inr schema
       \<and> ParseSignedDataForRecover example_Ext example_Parser (rr_SignedData schema)
           = Inr signedData
       \<and> GetMultihashCode example_Ext (rr_RevealValue schema) = Some code
       \<and> CalculateModelMultihash example_Ext (sd_RecoveryKey signedData) code
           = Some (rr_RevealValue schema))"
proof -
  have v: "ParseRecoverOperation example_Ext example_Parser ''recover'' True
             = Inr example_operation"
    by code_simp
  have w: "ParseRecoverOperation example_Ext example_Parser ''recover'' False
             = Inr example_operation"
    by code_simp
  have c: "GetMultihashCode example_Ext ''sha256:P-256,EC,Rx,Ry'' = Some 18"
    by code_simp
  from recover_reveal_matches_key[OF v] v w c show ?thesis by blast
qed

text \<open>
  Claim C4. In non-batch mode \<^verbatim>\<open>ParseRecoverOperation\<close> returns an error whenever the
  update commitment of the request's delta equals the recovery commitment of its signed
  data, and \<^verbatim>\<open>NewCreateRequest\<close> returns an error whenever the recovery commitment and
  the update commitment it is given are equal.
\<close>

theorem recovery_and_update_commitments_differ:
  "(parseRecoverRequest E request = Inr schema
      \<and> ParseSignedDataForRecover E p (rr_SignedData schema) = Inr signedData
      \<and> rr_Delta schema = Some delta
      \<and> UpdateCommitment delta = sd_RecoveryCommitment signedData
     \<longrightarrow> (\<exists>err. ParseRecoverOperation E p request False = Inl err))
   \<and> (cri_RecoveryCommitment info = cri_UpdateCommitment info
     \<longrightarrow> (\<exists>err. NewCreateRequest C info = Inl err))"
  by (auto simp: ParseRecoverOperation_def NewCreateRequest_def validateCreateRequest_def
        Let_def split: sum.splits option.splits)

theorem recovery_and_update_commitments_differ_witness:
  "parseRecoverRequest example_Ext ''recover-reuse'' = Inr example_recoverRequest_reuse
   \<and> ParseSignedDataForRecover example_Ext example_Parser
        (rr_SignedData example_recoverRequest_reuse) = Inr example_signedData
   \<and> (\<exists>err. ParseRecoverOperation example_Ext example_Parser ''recover-reuse'' False
              = Inl err)
   \<and> cri_RecoveryCommitment example_createInfo_reuse
       = cri_UpdateCommitment example_createInfo_reuse
   \<and> (\<exists>err. NewCreateRequest example_ClientExt example_createInfo_reuse = Inl err)"
proof -
  have a: "parseRecoverRequest example_Ext ''recover-reuse''
             = Inr example_recoverRequest_reuse"
    by code_simp
  have b: "ParseSignedDataForRecover example_Ext example_Parser
             (rr_SignedData example_recoverRequest_reuse) = Inr example_signedData"
    by code_simp
  have c: "rr_Delta example_recoverRequest_reuse
             = Some \<lparr>UpdateCommitment = ''sha256:sha256:P-256,EC,Rx2,Ry2'', Patches = []\<rparr>"
    by (simp add: example_recoverRequest_reuse_def)
  have d: "sd_RecoveryCommitment example_signedData = ''sha256:sha256:P-256,EC,Rx2,Ry2''"
    by (simp add: example_signedData_def)
  have e: "cri_RecoveryCommitment example_createInfo_reuse
             = cri_UpdateCommitment example_createInfo_reuse"
    by (simp add: example_createInfo_reuse_def)
  from recovery_and_update_commitments_differ
         [of example_Ext "''recover-reuse''" example_recoverRequest_reuse example_Parser
             example_signedData
             "\<lparr>UpdateCommitment = ''sha256:sha256:P-256,EC,Rx2,Ry2'', Patches = []\<rparr>"
             example_createInfo_reuse example_ClientExt]
       a b c d e
  show ?thesis by simp
qed

lemma validateSigningKey_validator:
  "validateSigningKey E (p\<lparr>anchorTimeValidator := v\<rparr>) k = validateSigningKey E p k"
  by (simp add: validateSigningKey_def validateNonce_def cong: option.case_cong if_cong)

lemma parseSignedData_validator:
  "parseSignedData E (p\<lparr>anchorTimeValidator := v\<rparr>) s = parseSignedData E p s"
  by (simp add: parseSignedData_def cong: option.case_cong if_cong)

lemma validateSignedDataForRecovery_validator:
  "validateSignedDataForRecovery E (p\<lparr>anchorTimeValidator := v\<rparr>) sd
     = validateSignedDataForRecovery E p sd"
  by (simp add: validateSignedDataForRecovery_def validateSigningKey_validator)

lemma ParseSignedDataForRecover_validator:
  "ParseSignedDataForRecover E (p\<lparr>anchorTimeValidator := v\<rparr>) s
     = ParseSignedDataForRecover E p s"
  by (simp add: ParseSignedDataForRecover_def parseSignedData_validator
        validateSignedDataForRecovery_validator cong: sum.case_cong option.case_cong)

lemma sint_add_no_overflow:
  fixes a :: "64 word" and b :: "64 word"
  assumes "sint a + uint b < 2 ^ 63"
  shows "sint (a + b) = sint a + uint b"
proof -
  have lo: "- (2 ^ 63) \<le> sint a" using sint_ge[of a] by simp
  have b0: "0 \<le> uint b" by simp
  have eq: "(word_of_int (sint a + uint b) :: 64 word) = a + b"
    by simp
  have "sint (word_of_int (sint a + uint b) :: 64 word)
          = signed_take_bit 63 (sint a + uint b)"
    by (subst sint_sbintrunc') simp
  also have "\<dots> = sint a + uint b"
    using lo b0 assms by (intro signed_take_bit_int_eq_self) linarith+
  finally show ?thesis by (simp only: eq)
qed

text \<open>
  Claim C9. For a recover request parsed in non-batch mode, let the bound be
  \<^verbatim>\<open>AnchorFrom + MaxDeltaSize\<close> when the signed data has \<^verbatim>\<open>AnchorFrom\<close> different from 0 and
  \<^verbatim>\<open>AnchorUntil\<close> equal to 0, and \<^verbatim>\<open>AnchorUntil\<close> unchanged in every other case (this is
  \<^verbatim>\<open>getAnchorUntil\<close>). The anchor-time validator is consulted at \<^verbatim>\<open>AnchorFrom\<close> and this
  bound and nowhere else: replacing it by the constant function with its value there does
  not change the result. Its answer there decides the parse: the parser returns the
  anchor-time error exactly when the anchor origin has passed and the validator rejects
  this pair, and when the validator accepts it and the remaining checks pass, the parser
  returns the operation. The sum is Go's \<^verbatim>\<open>int64\<close> addition; as long as it does not
  overflow it is the sum of the timestamp and the byte size as numbers.
\<close>

theorem anchor_until_bound:
  assumes "parseRecoverRequest E request = Inr schema"
    and "ParseSignedDataForRecover E p (rr_SignedData schema) = Inr signedData"
  shows "getAnchorUntil p (sd_AnchorFrom signedData) (sd_AnchorUntil signedData)
           = (if sd_AnchorFrom signedData \<noteq> 0 \<and> sd_AnchorUntil signedData = 0
              then sd_AnchorFrom signedData + MaxDeltaSize p
              else sd_AnchorUntil signedData)
       \<and> ParseRecoverOperation E p request False
           = ParseRecoverOperation E
               (p\<lparr>anchorTimeValidator :=
                    (\<lambda>from until. anchorTimeValidator p (sd_AnchorFrom signedData)
                       (getAnchorUntil p (sd_AnchorFrom signedData)
                          (sd_AnchorUntil signedData)))\<rparr>) request False
       \<and> (ParseRecoverOperation E p request False = Inl AnchorTimeNotValid
            \<longleftrightarrow> anchorOriginValidator p (sd_AnchorOrigin signedData)
                \<and> \<not> anchorTimeValidator p (sd_AnchorFrom signedData)
                      (getAnchorUntil p (sd_AnchorFrom signedData)
                         (sd_AnchorUntil signedData)))
       \<and> (anchorOriginValidator p (sd_AnchorOrigin signedData)
            \<and> anchorTimeValidator p (sd_AnchorFrom signedData)
                  (getAnchorUntil p (sd_AnchorFrom signedData) (sd_AnchorUntil signedData))
            \<and> ValidateDelta E (rr_Delta schema)
            \<and> rr_Delta schema = Some delta
            \<and> UpdateCommitment delta \<noteq> sd_RecoveryCommitment signedData
            \<and> IsValidModelMultihash E (sd_RecoveryKey signedData) (rr_RevealValue schema)
                = None
          \<longrightarrow> ParseRecoverOperation E p request False
               = Inr \<lparr>op_Type = TypeRecover,
                      op_Namespace = [],
                      op_ID = [],
                      op_UniqueSuffix = rr_DidSuffix schema,
                      op_OperationRequest = request,
                      op_SignedData = rr_SignedData schema,
                      op_RevealValue = rr_RevealValue schema,
                      op_Delta = rr_Delta schema,
                      op_SuffixData = None,
                      op_AnchorOrigin = sd_AnchorOrigin signedData\<rparr>)
       \<and> (sint (sd_AnchorFrom signedData) + uint (MaxDeltaSize p) < 2 ^ 63
          \<longrightarrow> sint (sd_AnchorFrom signedData + MaxDeltaSize p)
               = sint (sd_AnchorFrom signedData) + uint (MaxDeltaSize p))"
proof (intro conjI)
  show "getAnchorUntil p (sd_AnchorFrom signedData) (sd_AnchorUntil signedData)
           = (if sd_AnchorFrom signedData \<noteq> 0 \<and> sd_AnchorUntil signedData = 0
              then sd_AnchorFrom signedData + MaxDeltaSize p
              else sd_AnchorUntil signedData)"
    by (simp add: getAnchorUntil_def)
  show "ParseRecoverOperation E p request False
           = ParseRecoverOperation E
               (p\<lparr>anchorTimeValidator :=
                    (\<lambda>from until. anchorTimeValidator p (sd_AnchorFrom signedData)
                       (getAnchorUntil p (sd_AnchorFrom signedData)
                          (sd_AnchorUntil signedData)))\<rparr>) request False"
    using assms
    by (simp add: ParseRecoverOperation_def ParseSignedDataForRecover_validator
          getAnchorUntil_def Let_def)
  show "ParseRecoverOperation E p request False = Inl AnchorTimeNotValid
            \<longleftrightarrow> anchorOriginValidator p (sd_AnchorOrigin signedData)
                \<and> \<not> anchorTimeValidator p (sd_AnchorFrom signedData)
                      (getAnchorUntil p (sd_AnchorFrom signedData)
                         (sd_AnchorUntil signedData))"
    using assms
    by (simp add: ParseRecoverOperation_def Let_def split: option.splits)
  show "anchorOriginValidator p (sd_AnchorOrigin signedData)
            \<and> anchorTimeValidator p (sd_AnchorFrom signedData)
                  (getAnchorUntil p (sd_AnchorFrom signedData) (sd_AnchorUntil signedData))
            \<and> ValidateDelta E (rr_Delta schema)
            \<and> rr_Delta schema = Some delta
            \<and> UpdateCommitment delta \<noteq> sd_RecoveryCommitment signedData
            \<and> IsValidModelMultihash E (sd_RecoveryKey signedData) (rr_RevealValue schema)
                = None
          \<longrightarrow> ParseRecoverOperation E p request False
               = Inr \<lparr>op_Type = TypeRecover,
                      op_Namespace = [],
                      op_ID = [],
                      op_UniqueSuffix = rr_DidSuffix schema,
                      op_OperationRequest = request,
                      op_SignedData = rr_SignedData schema,
                      op_RevealValue = rr_RevealValue schema,
                      op_Delta = rr_Delta schema,
                      op_SuffixData = None,
                      op_AnchorOrigin = sd_AnchorOrigin signedData\<rparr>"
    using assms
    by (simp add: ParseRecoverOperation_def Let_def)
  show "sint (sd_AnchorFrom signedData) + uint (MaxDeltaSize p) < 2 ^ 63
          \<longrightarrow> sint (sd_AnchorFrom signedData + MaxDeltaSize p)
               = sint (sd_AnchorFrom signedData) + uint (MaxDeltaSize p)"
    by (simp add: sint_add_no_overflow)
qed

theorem anchor_until_bound_witness:
  "parseRecoverRequest example_Ext ''recover'' = Inr example_recoverRequest
   \<and> ParseSignedDataForRecover example_Ext example_Parser
        (rr_SignedData example_recoverRequest) = Inr example_signedData
   \<and> sd_AnchorFrom example_signedData = 1000
   \<and> sd_AnchorUntil example_signedData = 0
   \<and> MaxDeltaSize example_Parser = 2000
   \<and> getAnchorUntil example_Parser (sd_AnchorFrom example_signedData)
        (sd_AnchorUntil example_signedData) = 3000
   \<and> sint (sd_AnchorFrom example_signedData + MaxDeltaSize example_Parser) = 3000
   \<and> anchorTimeValidator example_Parser 1000 3000
   \<and> ParseRecoverOperation example_Ext example_Parser ''recover'' False
       = Inr example_operation
   \<and> \<not> anchorTimeValidator example_Parser_strict 1000 3000
   \<and> ParseRecoverOperation example_Ext example_Parser_strict ''recover'' False
       = Inl AnchorTimeNotValid"
proof -
  have a: "parseRecoverRequest example_Ext ''recover'' = Inr example_recoverRequest"
    by code_simp
  have b: "ParseSignedDataForRecover example_Ext example_Parser
             (rr_SignedData example_recoverRequest) = Inr example_signedData"
    by code_simp
  have b': "ParseSignedDataForRecover example_Ext example_Parser_strict
             (rr_SignedData example_recoverRequest) = Inr example_signedData"
    by code_simp
  have f: "sd_AnchorFrom example_signedData = 1000" "sd_AnchorUntil example_signedData = 0"
      "sd_AnchorOrigin example_signedData = INil"
      "sd_RecoveryCommitment example_signedData = ''sha256:sha256:P-256,EC,Rx2,Ry2''"
    by (simp_all add: example_signedData_def)
  have m: "MaxDeltaSize example_Parser = 2000"
      "anchorOriginValidator example_Parser INil"
      "anchorTimeValidator example_Parser 1000 (1000 + 2000)"
    by (simp_all add: example_Parser_def)
  have m': "MaxDeltaSize example_Parser_strict = 2000"
      "anchorOriginValidator example_Parser_strict INil"
      "\<not> anchorTimeValidator example_Parser_strict 1000 (1000 + 2000)"
    by (simp_all add: example_Parser_strict_def example_Parser_def)
  have d: "rr_Delta example_recoverRequest
             = Some \<lparr>UpdateCommitment = ''sha256:sha256:P-256,EC,Ux2,Uy2'', Patches = []\<rparr>"
      "ValidateDelta example_Ext (rr_Delta example_recoverRequest)"
      "IsValidModelMultihash example_Ext (sd_RecoveryKey example_signedData)
         (rr_RevealValue example_recoverRequest) = None"
    by code_simp+
  have o: "\<lparr>op_Type = TypeRecover,
            op_Namespace = [],
            op_ID = [],
            op_UniqueSuffix = rr_DidSuffix example_recoverRequest,
            op_OperationRequest = ''recover'',
            op_SignedData = rr_SignedData example_recoverRequest,
            op_RevealValue = rr_RevealValue example_recoverRequest,
            op_Delta = rr_Delta example_recoverRequest,
            op_SuffixData = None,
            op_AnchorOrigin = sd_AnchorOrigin example_signedData\<rparr> = example_operation"
    by code_simp
  note t = anchor_until_bound[OF a b,
             where delta = "\<lparr>UpdateCommitment = ''sha256:sha256:P-256,EC,Ux2,Uy2'',
                              Patches = []\<rparr>"]
  note t' = anchor_until_bound[OF a b']
  have g: "getAnchorUntil example_Parser (sd_AnchorFrom example_signedData)
             (sd_AnchorUntil example_signedData) = 1000 + 2000"
    using t[THEN conjunct1] f m by simp
  have g': "getAnchorUntil example_Parser_strict (sd_AnchorFrom example_signedData)
             (sd_AnchorUntil example_signedData) = 1000 + 2000"
    using t'[THEN conjunct1] f m' by simp
  have acc: "ParseRecoverOperation example_Ext example_Parser ''recover'' False
               = Inr example_operation"
    using t[THEN conjunct2, THEN conjunct2, THEN conjunct2, THEN conjunct1] f m g d
    unfolding o by simp
  have rej: "ParseRecoverOperation example_Ext example_Parser_strict ''recover'' False
               = Inl AnchorTimeNotValid"
    using t'[THEN conjunct2, THEN conjunct2, THEN conjunct1] f m' g' by simp
  have s: "sint (sd_AnchorFrom example_signedData + MaxDeltaSize example_Parser) = 3000"
    using t[THEN conjunct2, THEN conjunct2, THEN conjunct2, THEN conjunct2] f m by simp
  from a b f m m' g acc rej s show ?thesis by simp
qed

section \<open>Properties of the resolver\<close>

subsection \<open>Ordering\<close>

lemma set_insert_op: "set (insert_op x ys) = insert x (set ys)"
  by (induction ys) auto


subsection \<open>Deactivation\<close>

lemma op_before_trans: "op_before a b \<Longrightarrow> op_before b c \<Longrightarrow> op_before a c"
  by (auto simp: op_before_def)

lemma op_before_negtrans: "\<not> op_before a b \<Longrightarrow> \<not> op_before b c \<Longrightarrow> \<not> op_before a c"
  by (auto simp: op_before_def)

lemma op_before_asym: "op_before a b \<Longrightarrow> \<not> op_before b a"
  by (auto simp: op_before_def)

lemma sorted_insert_op:
  "sorted_wrt (\<lambda>a b. \<not> op_before b a) ys
     \<Longrightarrow> sorted_wrt (\<lambda>a b. \<not> op_before b a) (insert_op x ys)"
proof (induction ys)
  case Nil
  then show ?case by simp
next
  case (Cons y ys)
  show ?case
  proof (cases "op_before y x")
    case True
    with Cons show ?thesis
      by (auto simp: set_insert_op dest: op_before_asym)
  next
    case False
    with Cons.prems show ?thesis
      by (auto dest: op_before_negtrans)
  qed
qed

lemma sorted_order_ops: "sorted_wrt (\<lambda>a b. \<not> op_before b a) (order_ops ops)"
  unfolding order_ops_def by (induction ops) (simp_all add: sorted_insert_op)

text \<open>
  An operation appended to the input comes, in the order, after every operation it does
  not sort before.
\<close>

lemma insert_op_later:
  "insert_op x (takeWhile (\<lambda>a. \<not> op_before z a) ys @ z # dropWhile (\<lambda>a. \<not> op_before z a) ys)
     = takeWhile (\<lambda>a. \<not> op_before z a) (insert_op x ys)
       @ z # dropWhile (\<lambda>a. \<not> op_before z a) (insert_op x ys)"
proof (induction ys)
  case Nil
  then show ?case by simp
next
  case (Cons y ys)
  show ?case
  proof (cases "op_before z y")
    case zy: True
    show ?thesis
    proof (cases "op_before y x")
      case True
      with zy op_before_trans[of z y x] show ?thesis by simp
    next
      case False
      with zy show ?thesis by simp
    qed
  next
    case zy: False
    show ?thesis
    proof (cases "op_before y x")
      case True
      with zy Cons.IH show ?thesis by simp
    next
      case False
      with zy op_before_negtrans[of z y x] show ?thesis by simp
    qed
  qed
qed

lemma order_ops_append_later:
  "order_ops (ops @ [z])
     = takeWhile (\<lambda>a. \<not> op_before z a) (order_ops ops)
       @ z # dropWhile (\<lambda>a. \<not> op_before z a) (order_ops ops)"
  unfolding order_ops_def
  by (induction ops) (simp_all add: insert_op_later)

lemma order_ops_append_after:
  assumes "order_ops ops = before @ d # after" and "\<not> op_before z d"
  shows "\<exists>after'. order_ops (ops @ [z]) = before @ d # after'"
proof -
  from sorted_order_ops[of ops] assms(1)
  have s: "\<forall>b\<in>set before. \<not> op_before d b"
    by (simp add: sorted_wrt_append)
  have "\<not> op_before z b" if "b \<in> set before" for b
    using op_before_negtrans[OF assms(2), of b] s that by blast
  then have p: "\<forall>b\<in>set (before @ [d]). \<not> op_before z b"
    using assms(2) by simp
  have t: "takeWhile (\<lambda>a. \<not> op_before z a) ((before @ [d]) @ after)
             = (before @ [d]) @ takeWhile (\<lambda>a. \<not> op_before z a) after"
    by (rule takeWhile_append2) (use p in blast)
  have "order_ops (ops @ [z])
          = takeWhile (\<lambda>a. \<not> op_before z a) ((before @ [d]) @ after)
            @ z # dropWhile (\<lambda>a. \<not> op_before z a) ((before @ [d]) @ after)"
    by (simp add: order_ops_append_later assms(1))
  then show ?thesis unfolding t by simp
qed

lemma apply_deactivate_result:
  "apply_deactivate H p a rm = Inr rm' \<Longrightarrow>
     rm' = rm\<lparr>rm_doc := [], rm_update_commitment := [], rm_recovery_commitment := [],
              rm_deactivated := True\<rparr>"
  by (simp add: apply_deactivate_def split: option.splits if_splits)

lemma apply_operation_deactivate:
  assumes "apply_operation H reg a rm = Inr rm'" and "ao_type a = Deactivate"
  shows "rm' = rm\<lparr>rm_doc := [], rm_update_commitment := [], rm_recovery_commitment := [],
                  rm_deactivated := True\<rparr>"
proof -
  from assms(1) have "\<not> rm_deactivated rm"
    by (auto simp: apply_operation_def split: if_splits)
  with assms obtain p where "apply_deactivate H p a rm = Inr rm'"
    by (cases "registry_get reg (ao_transaction_time a)") (simp_all add: apply_operation_def)
  then show ?thesis by (rule apply_deactivate_result)
qed

lemma step_deactivated: "rm_deactivated rm \<Longrightarrow> step H reg rm a = rm"
  by (simp add: step_def apply_operation_def)

lemma foldl_step_deactivated: "rm_deactivated rm \<Longrightarrow> foldl (step H reg) rm ops = rm"
  by (induction ops) (simp_all add: step_deactivated)

text \<open>
  Claim C1. Take a history in which a Create applies and, in the order of resolution, a
  Deactivate is applied successfully to the model that the operations before it have
  produced. Then the history resolves to the model that this Deactivate returns; that
  model has \<^verbatim>\<open>deactivated\<close> set, the recovery commitment and the update commitment both
  empty, and the empty document. Every operation applied to it afterwards is refused as
  terminal and leaves it as it is, whatever the operations that follow the Deactivate in
  the history are; and appending a further Update, Recover or Deactivate to the history
  leaves the resolved result unchanged. A further operation is one that does not sort
  before the Deactivate.
\<close>

theorem deactivate_is_terminal:
  assumes "first_valid_create H registry (order_ops (filter (\<lambda>a. ao_type a = Create) ops))
             = Some rm0"
    and "order_ops (filter (\<lambda>a. ao_type a \<noteq> Create) ops) = before @ deactivate # after"
    and "ao_type deactivate = Deactivate"
    and "apply_operation H registry deactivate (foldl (step H registry) rm0 before) = Inr rm"
  shows "resolve H registry ops = Inr rm
       \<and> rm_deactivated rm
       \<and> rm_recovery_commitment rm = [] \<and> rm_update_commitment rm = []
       \<and> rm_doc rm = []
       \<and> (\<forall>further. apply_operation H registry further rm = Inl Terminal
                     \<and> step H registry rm further = rm)
       \<and> (\<forall>further. ao_type further \<noteq> Create \<and> \<not> op_before further deactivate
            \<longrightarrow> resolve H registry (ops @ [further]) = Inr rm)"
proof -
  let ?current = "foldl (step H registry) rm0 before"
  from apply_operation_deactivate[OF assms(4) assms(3)]
  have rm: "rm = ?current\<lparr>rm_doc := [], rm_update_commitment := [],
                          rm_recovery_commitment := [], rm_deactivated := True\<rparr>" .
  then have d: "rm_deactivated rm" and cleared: "rm_recovery_commitment rm = []"
      "rm_update_commitment rm = []" "rm_doc rm = []"
    by simp_all
  from assms(4) have s: "step H registry ?current deactivate = rm"
    by (simp add: step_def)
  have run: "foldl (step H registry) rm0 (before @ deactivate # rest) = rm" for rest
    by (simp add: s foldl_step_deactivated[OF d])
  have r: "resolve H registry ops = Inr rm"
    by (simp add: resolve_def assms(1) assms(2) s foldl_step_deactivated[OF d])
  have "resolve H registry (ops @ [further]) = Inr rm"
    if k: "ao_type further \<noteq> Create" and late: "\<not> op_before further deactivate"
    for further
  proof -
    from order_ops_append_after[OF assms(2) late] obtain after' where
        "order_ops (filter (\<lambda>a. ao_type a \<noteq> Create) ops @ [further])
           = before @ deactivate # after'"
      by blast
    then have "foldl (step H registry) rm0
                 (order_ops (filter (\<lambda>a. ao_type a \<noteq> Create) ops @ [further])) = rm"
      by (simp only: run)
    with k show ?thesis
      by (simp add: resolve_def assms(1))
  qed
  moreover from d
  have "apply_operation H registry further rm = Inl Terminal
          \<and> step H registry rm further = rm" for further
    by (simp add: step_def apply_operation_def)
  ultimately show ?thesis using r d cleared by blast
qed

theorem deactivate_is_terminal_witness:
  "first_valid_create example_Engine example_registry
       (order_ops (filter (\<lambda>a. ao_type a = Create)
          [example_deactivate, example_update, example_create])) = Some example_created
   \<and> order_ops (filter (\<lambda>a. ao_type a \<noteq> Create)
        [example_deactivate, example_update, example_create])
       = [example_update] @ example_deactivate # []
   \<and> ao_type example_deactivate = Deactivate
   \<and> apply_operation example_Engine example_registry example_deactivate
        (foldl (step example_Engine example_registry) example_created [example_update])
       = Inr example_deactivated
   \<and> resolve example_Engine example_registry
       [example_deactivate, example_update, example_create] = Inr example_deactivated
   \<and> rm_deactivated example_deactivated
   \<and> rm_recovery_commitment example_deactivated = []
   \<and> rm_update_commitment example_deactivated = []
   \<and> rm_doc example_deactivated = []
   \<and> ao_type example_update_late = Update
   \<and> \<not> op_before example_update_late example_deactivate
   \<and> apply_operation example_Engine example_registry example_update_late
        example_deactivated = Inl Terminal
   \<and> step example_Engine example_registry example_deactivated example_update_late
       = example_deactivated
   \<and> resolve example_Engine example_registry
       ([example_deactivate, example_update, example_create] @ [example_update_late])
       = Inr example_deactivated"
proof -
  have c: "first_valid_create example_Engine example_registry
       (order_ops (filter (\<lambda>a. ao_type a = Create)
          [example_deactivate, example_update, example_create])) = Some example_created"
    by code_simp
  have o: "order_ops (filter (\<lambda>a. ao_type a \<noteq> Create)
        [example_deactivate, example_update, example_create])
       = [example_update] @ example_deactivate # []"
    by code_simp
  have k: "ao_type example_deactivate = Deactivate"
    by (simp add: example_deactivate_def)
  have a: "apply_operation example_Engine example_registry example_deactivate
        (foldl (step example_Engine example_registry) example_created [example_update])
       = Inr example_deactivated"
    by code_simp
  have u: "ao_type example_update_late = Update"
    by (simp add: example_update_late_def example_update_def)
  have late: "\<not> op_before example_update_late example_deactivate"
    by code_simp
  note t = deactivate_is_terminal[OF c o k a]
  from t u late
  have "resolve example_Engine example_registry
          ([example_deactivate, example_update, example_create] @ [example_update_late])
          = Inr example_deactivated"
    by simp
  with t c o k a u late show ?thesis by simp
qed

subsection \<open>Protocol parameters\<close>















subsection \<open>Key reuse\<close>

text \<open>
  Claim C3. No key is reused along the commitment chain. Validation of an update fails
  when the commitment of its update key is the next update commitment of its delta: the
  parser's \<^verbatim>\<open>validateCommitment\<close> returns the key-reuse error when the commitment of the
  key, computed with the algorithm the next commitment encodes, is the next commitment,
  and the client's \<^verbatim>\<open>NewUpdateRequest\<close> returns an error when the commitment of the
  update key is the update commitment it is given; so does the applier's parse of an
  anchored update. The applier discards an update whose \<^verbatim>\<open>delta.update_commitment\<close>
  is the current update commitment, and the discarded operation leaves the resolution
  model unchanged.
\<close>

theorem no_key_reuse_across_chain:
  "(GetMultihashCode E nextCommitment = Some code
      \<and> GetCommitment E jwk code = Some nextCommitment
     \<longrightarrow> validateCommitment E jwk nextCommitment = Some ReusingPublicKeysForCommitment)
   \<and> (upd_GetCommitment U (uri_UpdateKey info) (uri_MultihashCode info)
        = Some (uri_UpdateCommitment info)
     \<longrightarrow> (\<exists>err. NewUpdateRequest U info = Inl err))
   \<and> (ao_delta anchored = Some delta \<and> ao_signed_data anchored = Some compact
        \<and> parse_signed_data H p compact = Some payload
        \<and> sp_update_key payload = Some key
        \<and> key_commitment_like H key (UpdateCommitment delta) = Some (UpdateCommitment delta)
     \<longrightarrow> (\<exists>err. apply_update H p anchored rm = Inl err))
   \<and> (ao_type anchored = Update \<and> ao_delta anchored = Some delta
        \<and> UpdateCommitment delta = rm_update_commitment rm
     \<longrightarrow> (\<exists>err. apply_operation H registry anchored rm = Inl err)
         \<and> step H registry rm anchored = rm)"
proof (intro conjI impI)
  assume "GetMultihashCode E nextCommitment = Some code
            \<and> GetCommitment E jwk code = Some nextCommitment"
  then show "validateCommitment E jwk nextCommitment = Some ReusingPublicKeysForCommitment"
    by (simp add: validateCommitment_def)
next
  assume "upd_GetCommitment U (uri_UpdateKey info) (uri_MultihashCode info)
            = Some (uri_UpdateCommitment info)"
  then show "\<exists>err. NewUpdateRequest U info = Inl err"
    by (simp add: NewUpdateRequest_def client_validateCommitment_def Let_def
          split: option.splits)
next
  assume "ao_delta anchored = Some delta \<and> ao_signed_data anchored = Some compact
        \<and> parse_signed_data H p compact = Some payload
        \<and> sp_update_key payload = Some key
        \<and> key_commitment_like H key (UpdateCommitment delta) = Some (UpdateCommitment delta)"
  then show "\<exists>err. apply_update H p anchored rm = Inl err"
    by (simp add: apply_update_def split: option.splits)
next
  assume h: "ao_type anchored = Update \<and> ao_delta anchored = Some delta
               \<and> UpdateCommitment delta = rm_update_commitment rm"
  then have u: "\<exists>err. apply_update H p anchored rm = Inl err" for p
    by (auto simp: apply_update_def split: option.splits)
  with h show e: "\<exists>err. apply_operation H registry anchored rm = Inl err"
    by (auto simp: apply_operation_def split: option.splits)
  then show "step H registry rm anchored = rm"
    by (auto simp: step_def)
qed

theorem no_key_reuse_across_chain_witness:
  "GetCommitment example_Ext (Some example_updateKey) 18 = Some ''sha256:sha256:P-256,EC,Ux,Uy''
   \<and> validateCommitment example_Ext (Some example_updateKey) ''sha256:sha256:P-256,EC,Ux,Uy''
       = Some ReusingPublicKeysForCommitment
   \<and> (\<exists>err. NewUpdateRequest example_UpdateExt example_updateInfo_reuse = Inl err)
   \<and> rm_update_commitment example_created = ''sha256:sha256:P-256,EC,Ux,Uy''
   \<and> (\<exists>err. apply_update example_Engine example_protocol100 example_update_reuse
               example_created = Inl err)
   \<and> (\<exists>err. apply_operation example_Engine example_registry example_update_reuse
               example_created = Inl err)
   \<and> step example_Engine example_registry example_created example_update_reuse
       = example_created"
proof -
  have c: "GetMultihashCode example_Ext ''sha256:sha256:P-256,EC,Ux,Uy'' = Some 18"
      "GetCommitment example_Ext (Some example_updateKey) 18
         = Some ''sha256:sha256:P-256,EC,Ux,Uy''"
    by code_simp+
  have n: "upd_GetCommitment example_UpdateExt (uri_UpdateKey example_updateInfo_reuse)
             (uri_MultihashCode example_updateInfo_reuse)
             = Some (uri_UpdateCommitment example_updateInfo_reuse)"
    by code_simp
  have a: "ao_type example_update_reuse = Update"
      "ao_delta example_update_reuse
         = Some \<lparr>UpdateCommitment = ''sha256:sha256:P-256,EC,Ux,Uy'',
                 Patches = [IString ''v200'']\<rparr>"
      "rm_update_commitment example_created = ''sha256:sha256:P-256,EC,Ux,Uy''"
      "ao_signed_data example_update_reuse = Some ''update-reuse-jws''"
    by (simp_all add: example_update_reuse_def example_update_def example_created_def)
  have k: "parse_signed_data example_Engine example_protocol100 ''update-reuse-jws''
             = Some \<lparr>sp_update_key = Some example_updateKey,
                      sp_recovery_key = None,
                      sp_delta_hash = ''sha256:delta:sha256:sha256:P-256,EC,Ux,Uy'',
                      sp_recovery_commitment = [],
                      sp_anchor_origin = INil,
                      sp_anchor_from = 0,
                      sp_anchor_until = 0\<rparr>"
      "key_commitment_like example_Engine example_updateKey ''sha256:sha256:P-256,EC,Ux,Uy''
         = Some ''sha256:sha256:P-256,EC,Ux,Uy''"
    by code_simp+
  note t = no_key_reuse_across_chain
             [where E = example_Ext and nextCommitment = "''sha256:sha256:P-256,EC,Ux,Uy''"
                and code = 18 and jwk = "Some example_updateKey"
                and U = example_UpdateExt and info = example_updateInfo_reuse
                and anchored = example_update_reuse
                and delta = "\<lparr>UpdateCommitment = ''sha256:sha256:P-256,EC,Ux,Uy'',
                                Patches = [IString ''v200'']\<rparr>"
                and compact = "''update-reuse-jws''"
                and H = example_Engine and p = example_protocol100
                and payload = "\<lparr>sp_update_key = Some example_updateKey,
                                  sp_recovery_key = None,
                                  sp_delta_hash = ''sha256:delta:sha256:sha256:P-256,EC,Ux,Uy'',
                                  sp_recovery_commitment = [],
                                  sp_anchor_origin = INil,
                                  sp_anchor_from = 0,
                                  sp_anchor_until = 0\<rparr>"
                and key = example_updateKey
                and rm = example_created and registry = example_registry]
  from t[THEN conjunct1] c
  have 1: "validateCommitment example_Ext (Some example_updateKey)
             ''sha256:sha256:P-256,EC,Ux,Uy'' = Some ReusingPublicKeysForCommitment"
    by simp
  from t[THEN conjunct2, THEN conjunct1] n
  have 2: "\<exists>err. NewUpdateRequest example_UpdateExt example_updateInfo_reuse = Inl err"
    by simp
  from t[THEN conjunct2, THEN conjunct2, THEN conjunct1] a k
  have 3: "\<exists>err. apply_update example_Engine example_protocol100 example_update_reuse
                   example_created = Inl err"
    by simp
  from t[THEN conjunct2, THEN conjunct2, THEN conjunct2] a
  have 4: "(\<exists>err. apply_operation example_Engine example_registry example_update_reuse
                    example_created = Inl err)
           \<and> step example_Engine example_registry example_created example_update_reuse
               = example_created"
    by simp
  from c 1 2 3 4 a show ?thesis by blast
qed

end
